theory Spec2Isabelle
  imports Complex_Main "HOL-Library.AList"
begin

section \<open>JavaScript values\<close>

text \<open>
  Numbers of the program are JavaScript numbers. They are modelled as \<^typ>\<open>real\<close>:
  arithmetic is exact, the rounding of IEEE doubles and the values NaN and
  Infinity are outside the model. Strings are lists of 8-bit characters and stand
  for ASCII text. Dates are milliseconds since the epoch.
\<close>

datatype json =
    JNull
  | JBool bool
  | JNumber real
  | JString string
  | JArray "json list"
  | JObject "(string \<times> json) list"

text \<open>
  A \<^const>\<open>JObject\<close> lists the own properties of a parsed object, the first
  pair for a key being its value. Errors raised by the program are values.
\<close>

datatype js_error = Error string | TypeError | SyntaxError

text \<open>
  Property read \<open>v.k\<close>: reading from \<open>null\<close> raises a TypeError, an object
  gives the property or \<open>undefined\<close> (\<open>None\<close>), and every other parsed value
  has none of the properties the program reads.
\<close>

fun get_prop :: "json \<Rightarrow> string \<Rightarrow> js_error + json option" where
  "get_prop JNull k = Inl TypeError"
| "get_prop (JObject kvs) k = Inr (map_of kvs k)"
| "get_prop v k = Inr None"

text \<open>Truthiness of a value that may be \<open>undefined\<close>.\<close>

fun truthy :: "json option \<Rightarrow> bool" where
  "truthy None = False"
| "truthy (Some JNull) = False"
| "truthy (Some (JBool b)) = b"
| "truthy (Some (JNumber n)) = (n \<noteq> 0)"
| "truthy (Some (JString s)) = (s \<noteq> [])"
| "truthy (Some (JArray xs)) = True"
| "truthy (Some (JObject kvs)) = True"

definition upper_char :: "char \<Rightarrow> char" where
  "upper_char c =
     (let n = (of_char c :: nat)
      in if 97 \<le> n \<and> n \<le> 122 then char_of (n - 32) else c)"

definition lower_char :: "char \<Rightarrow> char" where
  "lower_char c =
     (let n = (of_char c :: nat)
      in if 65 \<le> n \<and> n \<le> 90 then char_of (n + 32) else c)"

definition toUpperCase :: "string \<Rightarrow> string" where
  "toUpperCase s = map upper_char s"

definition toLowerCase :: "string \<Rightarrow> string" where
  "toLowerCase s = map lower_char s"

definition is_space :: "char \<Rightarrow> bool" where
  "is_space c = (c \<in> set [CHR 0x09, CHR 0x0A, CHR 0x0B, CHR 0x0C, CHR 0x0D, CHR '' ''])"

definition trim :: "string \<Rightarrow> string" where
  "trim s = rev (dropWhile is_space (rev (dropWhile is_space s)))"

section \<open>OllamaService: parsing the model's response\<close>

record ControlMapping =
  nistControlId :: string
  confidence :: real
  reasoning :: json

text \<open>
  \<open>reasoning\<close> is declared a string in the program; the parser stores whatever
  value the response carried there, so the field holds a \<^typ>\<open>json\<close> value, a
  string being \<^term>\<open>JString s\<close>. Where two interfaces of the program have a
  field of the same name (\<open>id\<close>, \<open>title\<close>, \<open>processingTime\<close>, \<open>model\<close>,
  \<open>error\<close>), one of them carries a prefix here. The optional \<open>parts\<close> and
  \<open>properties\<close> of a control are read by no operation below and are left out.
\<close>

record MappingAnalysisResult =
  mappings :: "ControlMapping list"
  ar_processingTime :: real
  ar_model :: string
  ar_timestamp :: int

definition normalizeNistControlId :: "string \<Rightarrow> string" where
  "normalizeNistControlId controlId = trim (toUpperCase controlId)"

text \<open>
  \<open>content.match(/\{[\s\S]*\}/)\<close>: the text from the first opening brace to
  the last closing brace after it, or no match.
\<close>

definition extractJson :: "string \<Rightarrow> string option" where
  "extractJson content =
     (let rest = dropWhile (\<lambda>c. c \<noteq> CHR ''{'') content;
          body = rev (dropWhile (\<lambda>c. c \<noteq> CHR ''}'') (rev rest))
      in if body = [] then None else Some body)"

text \<open>
  The callback of \<open>parsed.mappings.map\<close>: one element of the array. The call
  \<open>mapping.nistControlId.toUpperCase()\<close> raises a TypeError on a value that is
  not a string.
\<close>

definition parseMapping :: "json \<Rightarrow> js_error + ControlMapping" where
  "parseMapping mapping =
     (case get_prop mapping ''nistControlId'' of
        Inl e \<Rightarrow> Inl e
      | Inr nid \<Rightarrow>
          (case get_prop mapping ''confidence'' of
             Inl e \<Rightarrow> Inl e
           | Inr conf \<Rightarrow>
               (case get_prop mapping ''reasoning'' of
                  Inl e \<Rightarrow> Inl e
                | Inr reas \<Rightarrow>
                    if \<not> truthy nid \<or> (case conf of Some (JNumber c) \<Rightarrow> False | _ \<Rightarrow> True)
                       \<or> \<not> truthy reas
                    then Inl (Error ''Invalid mapping format: missing required fields'')
                    else
                      (case (nid, conf, reas) of
                         (Some (JString s), Some (JNumber c), Some r) \<Rightarrow>
                           Inr \<lparr>nistControlId = normalizeNistControlId s,
                                confidence = max 0 (min 100 c),
                                reasoning = r\<rparr>
                       | _ \<Rightarrow> Inl TypeError))))"

text \<open>\<open>Array.prototype.map\<close> with a callback that may raise: the first error wins.\<close>

fun parseMappings :: "json list \<Rightarrow> js_error + ControlMapping list" where
  "parseMappings [] = Inr []"
| "parseMappings (m # ms) =
     (case parseMapping m of
        Inl e \<Rightarrow> Inl e
      | Inr c \<Rightarrow> (case parseMappings ms of Inl e \<Rightarrow> Inl e | Inr cs \<Rightarrow> Inr (c # cs)))"

text \<open>
  The body of the \<open>try\<close> block of \<open>parseResponse\<close>. \<open>JSON.parse\<close> is the
  platform's parser and is a parameter: \<open>None\<close> is its SyntaxError.
\<close>

definition parseResponse_try ::
  "(string \<Rightarrow> json option) \<Rightarrow> string \<Rightarrow> js_error + ControlMapping list" where
  "parseResponse_try JSON_parse content =
     (case extractJson content of
        None \<Rightarrow> Inl (Error ''No JSON found in response'')
      | Some jsonMatch \<Rightarrow>
          (case JSON_parse jsonMatch of
             None \<Rightarrow> Inl SyntaxError
           | Some parsed \<Rightarrow>
               (case get_prop parsed ''mappings'' of
                  Inl e \<Rightarrow> Inl e
                | Inr (Some (JArray ms)) \<Rightarrow> parseMappings ms
                | Inr _ \<Rightarrow> Inl (Error ''Invalid response format: missing mappings array''))))"

definition fallbackMapping :: ControlMapping where
  "fallbackMapping =
     \<lparr>nistControlId = normalizeNistControlId ''AC-1'',
      confidence = 50,
      reasoning = JString
        ''Automated mapping failed - manual review required. Raw response parsing error.''\<rparr>"

definition parseResponse :: "(string \<Rightarrow> json option) \<Rightarrow> string \<Rightarrow> ControlMapping list" where
  "parseResponse JSON_parse content =
     (case parseResponse_try JSON_parse content of
        Inr ms \<Rightarrow> ms
      | Inl e \<Rightarrow> [fallbackMapping])"


section \<open>OllamaService: one analysis and the batch\<close>

text \<open>
  What the HTTP call of \<open>analyzeControlMapping\<close> did: it raised with a message,
  or it returned and \<open>response.data.response\<close> was absent (\<open>None\<close>) or a text.
  \<open>elapsed\<close> is \<open>Date.now() - startTime\<close> and \<open>finishedAt\<close> the \<open>new Date()\<close>
  of the result. The prompt sent and the request counter are not modelled.
\<close>

datatype http_reply = Throws string | Replies "string option"

record AnalysisRun =
  reply :: http_reply
  elapsed :: real
  finishedAt :: int

definition analyzeControlMapping ::
  "(string \<Rightarrow> json option) \<Rightarrow> string \<Rightarrow> AnalysisRun \<Rightarrow> js_error + MappingAnalysisResult" where
  "analyzeControlMapping JSON_parse modelName run =
     (case reply run of
        Throws msg \<Rightarrow> Inl (Error (''Ollama analysis failed: '' @ msg))
      | Replies None \<Rightarrow> Inl (Error ''Ollama analysis failed: No response from Ollama'')
      | Replies (Some text) \<Rightarrow>
          if text = [] then Inl (Error ''Ollama analysis failed: No response from Ollama'')
          else Inr \<lparr>mappings = parseResponse JSON_parse text,
                    ar_processingTime = elapsed run,
                    ar_model = modelName,
                    ar_timestamp = finishedAt run\<rparr>)"

record ISMControl =
  ism_id :: string
  ism_title :: string
  ism_description :: string
  implementationGuidance :: string
  controlFamily :: string
  riskLevel :: string

record NISTControl =
  nist_id :: string
  nist_title :: string
  nist_description :: string
  nist_family :: string
  nist_class :: string

text \<open>
  \<open>batchAnalyzeControls\<close>. \<open>analyze i c\<close> is the settled outcome of the call
  \<open>analyzeControlMapping\<close> for the control \<open>c\<close> at position \<open>i\<close> (\<open>Inl\<close>: it
  raised). The window width is the constant 1 and the results of a window are
  handled in the order of the list, so the loop visits the controls one by one.
  The progress callback changes the caller's state \<open>'s\<close>; the pauses of the
  loop are not modelled.
\<close>

type_synonym 's progress_callback =
  "nat \<Rightarrow> nat \<Rightarrow> (string \<times> MappingAnalysisResult) option \<Rightarrow> 's \<Rightarrow> 's"

fun batchLoop ::
  "(nat \<Rightarrow> ISMControl \<Rightarrow> js_error + MappingAnalysisResult) \<Rightarrow> 's progress_callback option \<Rightarrow>
   nat \<Rightarrow> ISMControl list \<Rightarrow> nat \<Rightarrow> (string \<times> MappingAnalysisResult) list \<Rightarrow> 's \<Rightarrow>
   (string \<times> MappingAnalysisResult) list \<times> 's" where
  "batchLoop analyze onProgress totalN [] completed results st = (results, st)"
| "batchLoop analyze onProgress totalN (control # rest) completed results st =
     (case analyze completed control of
        Inr result \<Rightarrow>
          batchLoop analyze onProgress totalN rest (completed + 1)
            (AList.update (ism_id control) result results)
            (case onProgress of
               Some f \<Rightarrow> f (completed + 1) totalN (Some (ism_id control, result)) st
             | None \<Rightarrow> st)
      | Inl err \<Rightarrow>
          batchLoop analyze onProgress totalN rest (completed + 1) results
            (case onProgress of
               Some f \<Rightarrow> f (completed + 1) totalN None st
             | None \<Rightarrow> st))"

definition batchAnalyzeControls ::
  "(nat \<Rightarrow> ISMControl \<Rightarrow> js_error + MappingAnalysisResult) \<Rightarrow> ISMControl list \<Rightarrow>
   NISTControl list \<Rightarrow> 's progress_callback option \<Rightarrow> 's \<Rightarrow>
   (string \<times> MappingAnalysisResult) list \<times> 's" where
  "batchAnalyzeControls analyze ismControls nistControls onProgress st =
     batchLoop analyze onProgress (length ismControls) ismControls 0 [] st"

section \<open>ControlService\<close>

record ControlLoadingStatus =
  isLoading :: bool
  ismControlsLoaded :: bool
  nistControlsLoaded :: bool
  ismControlCount :: nat
  nistControlCount :: nat
  lastLoadTime :: "int option"
  load_error :: "string option"

record ControlService =
  ismControls :: "ISMControl list"
  nistControls :: "NISTControl list"
  loadingStatus :: ControlLoadingStatus

text \<open>
  \<open>loadNISTControls\<close>: the parser's result replaces the list, or its error
  clears the flag and is raised again.
\<close>

definition loadNISTControls ::
  "(js_error + NISTControl list) \<Rightarrow> ControlService \<Rightarrow> (js_error + unit) \<times> ControlService" where
  "loadNISTControls loaded cs =
     (case loaded of
        Inr controls \<Rightarrow>
          (Inr (),
           cs\<lparr>nistControls := controls,
              loadingStatus := (loadingStatus cs)\<lparr>nistControlsLoaded := True,
                                                nistControlCount := length controls\<rparr>\<rparr>)
      | Inl e \<Rightarrow>
          (Inl e,
           cs\<lparr>loadingStatus := (loadingStatus cs)\<lparr>nistControlsLoaded := False,
                                                nistControlCount := 0\<rparr>\<rparr>))"

definition getISMControls :: "ControlService \<Rightarrow> ISMControl list" where
  "getISMControls cs = ismControls cs"

definition getNISTControls :: "ControlService \<Rightarrow> NISTControl list" where
  "getNISTControls cs = nistControls cs"

definition getISMControlById :: "ControlService \<Rightarrow> string \<Rightarrow> ISMControl option" where
  "getISMControlById cs i = find (\<lambda>control. ism_id control = i) (ismControls cs)"

definition isReady :: "ControlService \<Rightarrow> bool" where
  "isReady cs = (ismControlsLoaded (loadingStatus cs) \<and> nistControlsLoaded (loadingStatus cs))"


section \<open>MappingEngine: state\<close>

text \<open>
  A correspondence of a \<open>MappingResult\<close> is a \<open>ControlMapping\<close> with the
  title and description of the NIST control and the override flag.
\<close>

record NistMapping = ControlMapping +
  nistTitle :: string
  nistDescription :: string
  isManualOverride :: bool

record MappingResult =
  ismControlId :: string
  nistMappings :: "NistMapping list"
  processingTimestamp :: int
  aiModel :: string
  processingTime :: real

datatype JobStatus = Queued | Processing | Completed | Failed

record ProcessingJob =
  job_id :: string
  status :: JobStatus
  progress :: int
  totalControls :: nat
  processedControls :: nat
  startTime :: int
  endTime :: "int option"
  job_error :: "string option"
  results :: "(string \<times> MappingResult) list"

record ResultsQueueItem =
  q_jobId :: string
  q_result :: MappingResult
  q_timestamp :: int

text \<open>
  The engine. A JavaScript \<open>Map\<close> is an association list in insertion order:
  \<open>get\<close> is \<^const>\<open>map_of\<close>, \<open>set\<close> is \<^const>\<open>AList.update\<close> (an existing key
  keeps its place, a new key goes last), \<open>values()\<close> is \<open>map snd\<close> and \<open>size\<close> is
  the length. \<open>aiService\<close> holds the model name of the service once
  \<open>initialize\<close> was called. Entries are held by value: the entry of a queue item
  and of a job's \<open>results\<close> is the entry as it was written.
\<close>

record MappingEngine =
  aiService :: "string option"
  controlService :: ControlService
  activeJobs :: "(string \<times> ProcessingJob) list"
  mappingResults :: "(string \<times> MappingResult) list"
  resultsQueue :: "ResultsQueueItem list"

definition initialize :: "string \<Rightarrow> MappingEngine \<Rightarrow> MappingEngine" where
  "initialize svc eng = eng\<lparr>aiService := Some svc\<rparr>"

text \<open>\<open>x || d\<close> on a string that may be \<open>undefined\<close>.\<close>

definition or_default :: "string option \<Rightarrow> string \<Rightarrow> string" where
  "or_default x d = (case x of None \<Rightarrow> d | Some s \<Rightarrow> if s = [] then d else s)"

definition getNISTControlMetadata :: "MappingEngine \<Rightarrow> string \<Rightarrow> string \<times> string" where
  "getNISTControlMetadata eng nid =
     (let nistControl = find (\<lambda>control. toLowerCase (nist_id control) = toLowerCase nid)
                          (getNISTControls (controlService eng))
      in (or_default (map_option nist_title nistControl) ''Unknown'',
          or_default (map_option nist_description nistControl) ''Description not available''))"

section \<open>MappingEngine: reading results\<close>

text \<open>The callback of \<open>result.nistMappings.map\<close> in both read operations.\<close>

definition enrichMapping :: "MappingEngine \<Rightarrow> NistMapping \<Rightarrow> NistMapping" where
  "enrichMapping eng mapping =
     (if nistTitle mapping \<noteq> [] \<and> nistDescription mapping \<noteq> [] then mapping
      else
        (let nistMetadata = getNISTControlMetadata eng (nistControlId mapping)
         in mapping\<lparr>nistTitle := fst nistMetadata, nistDescription := snd nistMetadata\<rparr>))"

definition getAllMappingResults :: "MappingEngine \<Rightarrow> MappingResult list" where
  "getAllMappingResults eng =
     map (\<lambda>result. result\<lparr>nistMappings := map (enrichMapping eng) (nistMappings result)\<rparr>)
       (map snd (mappingResults eng))"

definition getMappingResult :: "MappingEngine \<Rightarrow> string \<Rightarrow> MappingResult option" where
  "getMappingResult eng ismId =
     (case map_of (mappingResults eng) ismId of
        None \<Rightarrow> None
      | Some result \<Rightarrow>
          Some (result\<lparr>nistMappings := map (enrichMapping eng) (nistMappings result)\<rparr>))"

definition getJobStatus :: "MappingEngine \<Rightarrow> string \<Rightarrow> ProcessingJob option" where
  "getJobStatus eng jobId = map_of (activeJobs eng) jobId"



section \<open>MappingEngine: manual overrides\<close>

text \<open>
  \<open>xs.find(p)\<close> followed by assignments to the fields of the element found:
  the first element that satisfies \<open>p\<close> is changed where it stands.
\<close>

fun update_first :: "('a \<Rightarrow> bool) \<Rightarrow> ('a \<Rightarrow> 'a) \<Rightarrow> 'a list \<Rightarrow> 'a list" where
  "update_first p f [] = []"
| "update_first p f (x # xs) = (if p x then f x # xs else x # update_first p f xs)"

definition applyManualOverride ::
  "int \<Rightarrow> string \<Rightarrow> string \<Rightarrow> real \<Rightarrow> string \<Rightarrow> MappingEngine \<Rightarrow> MappingEngine" where
  "applyManualOverride now ismId nid conf reas eng =
     (let existingResult = map_of (mappingResults eng) ismId;
          nistMetadata = getNISTControlMetadata eng nid;
          newMapping = \<lparr>nistControlId = nid, confidence = conf, reasoning = JString reas,
                        nistTitle = fst nistMetadata, nistDescription = snd nistMetadata,
                        isManualOverride = True\<rparr>
      in case existingResult of
           None \<Rightarrow>
             eng\<lparr>mappingResults := AList.update ismId
                    \<lparr>ismControlId = ismId, nistMappings = [newMapping],
                     processingTimestamp = now, aiModel = ''manual-override'',
                     processingTime = 0\<rparr>
                    (mappingResults eng)\<rparr>
         | Some existing \<Rightarrow>
             (case find (\<lambda>m. nistControlId m = nid) (nistMappings existing) of
                Some existingMapping \<Rightarrow>
                  eng\<lparr>mappingResults := AList.update ismId
                         (existing\<lparr>nistMappings :=
                            update_first (\<lambda>m. nistControlId m = nid)
                              (\<lambda>m. m\<lparr>confidence := conf, reasoning := JString reas,
                                      isManualOverride := True,
                                      nistTitle := fst nistMetadata,
                                      nistDescription := snd nistMetadata\<rparr>)
                              (nistMappings existing)\<rparr>)
                         (mappingResults eng)\<rparr>
              | None \<Rightarrow>
                  eng\<lparr>mappingResults := AList.update ismId
                         (existing\<lparr>nistMappings := nistMappings existing @ [newMapping]\<rparr>)
                         (mappingResults eng)\<rparr>))"

definition removeManualOverride :: "string \<Rightarrow> string \<Rightarrow> MappingEngine \<Rightarrow> MappingEngine" where
  "removeManualOverride ismId nid eng =
     (case map_of (mappingResults eng) ismId of
        None \<Rightarrow> eng
      | Some result \<Rightarrow>
          eng\<lparr>mappingResults := AList.update ismId
                 (result\<lparr>nistMappings :=
                    filter (\<lambda>m. \<not> (nistControlId m = nid \<and> isManualOverride m))
                      (nistMappings result)\<rparr>)
                 (mappingResults eng)\<rparr>)"

definition reset :: "MappingEngine \<Rightarrow> MappingEngine" where
  "reset eng = eng\<lparr>activeJobs := [], mappingResults := []\<rparr>"


section \<open>MappingEngine: statistics\<close>

record ProcessingMetadata =
  totalISMControls :: int
  pm_processedControls :: int
  averageConfidence :: real
  highConfidenceMappings :: int
  unmappedControls :: int
  processingStartTime :: int
  processingEndTime :: "int option"
  totalProcessingTime :: real

text \<open>The local variables that \<open>calculateProcessingMetadata\<close> accumulates.\<close>

record MetadataAcc =
  totalConfidence :: real
  mappingCount :: int
  highConfidenceCount :: int
  earliestStart :: int
  latestEnd :: int
  acc_totalProcessingTime :: real

definition metadataMappingStep :: "NistMapping \<Rightarrow> MetadataAcc \<Rightarrow> MetadataAcc" where
  "metadataMappingStep mapping acc =
     acc\<lparr>totalConfidence := totalConfidence acc + confidence mapping,
         mappingCount := mappingCount acc + 1,
         highConfidenceCount :=
           (if confidence mapping \<ge> 70 then highConfidenceCount acc + 1
            else highConfidenceCount acc)\<rparr>"

definition metadataResultStep :: "MappingResult \<Rightarrow> MetadataAcc \<Rightarrow> MetadataAcc" where
  "metadataResultStep result acc =
     fold metadataMappingStep (nistMappings result)
       (acc\<lparr>earliestStart :=
              (if processingTimestamp result < earliestStart acc
               then processingTimestamp result else earliestStart acc),
            latestEnd :=
              (if processingTimestamp result > latestEnd acc
               then processingTimestamp result else latestEnd acc),
            acc_totalProcessingTime := acc_totalProcessingTime acc + processingTime result\<rparr>)"

definition calculateProcessingMetadata :: "int \<Rightarrow> MappingEngine \<Rightarrow> ProcessingMetadata" where
  "calculateProcessingMetadata now eng =
     (let rs = map snd (mappingResults eng);
          totalControlsN = int (length (getISMControls (controlService eng)));
          acc = fold metadataResultStep rs
                  \<lparr>totalConfidence = 0, mappingCount = 0, highConfidenceCount = 0,
                   earliestStart = now, latestEnd = 0, acc_totalProcessingTime = 0\<rparr>
      in \<lparr>totalISMControls = totalControlsN,
          pm_processedControls = int (length rs),
          averageConfidence =
            (if mappingCount acc > 0 then totalConfidence acc / real_of_int (mappingCount acc)
             else 0),
          highConfidenceMappings = highConfidenceCount acc,
          unmappedControls = totalControlsN - int (length rs),
          processingStartTime = earliestStart acc,
          processingEndTime = (if latestEnd acc > 0 then Some (latestEnd acc) else None),
          totalProcessingTime = acc_totalProcessingTime acc\<rparr>)"



section \<open>MappingEngine: running a job\<close>

text \<open>\<open>Math.round\<close>: the nearest integer, a half going up.\<close>

definition Math_round :: "real \<Rightarrow> int" where
  "Math_round x = \<lfloor>x + 1 / 2\<rfloor>"

text \<open>
  The progress callback that \<open>processControlsAsync\<close> hands to the batch. It
  changes the job and the engine; \<open>clock k\<close> is the \<open>new Date()\<close> read by the
  call with \<open>completed = k\<close>.
\<close>

definition onProgress ::
  "(nat \<Rightarrow> int) \<Rightarrow> (ProcessingJob \<times> MappingEngine) progress_callback" where
  "onProgress clock completed totalN latestResult st =
     (let job = (fst st)\<lparr>processedControls := completed,
                          progress := Math_round (real completed / real totalN * 100)\<rparr>;
          eng = snd st
      in case latestResult of
           None \<Rightarrow> (job, eng)
         | Some (controlId, analysisResult) \<Rightarrow>
             (let mappingResult =
                    \<lparr>ismControlId = controlId,
                     nistMappings =
                       map (\<lambda>mapping.
                              (let nistMetadata = getNISTControlMetadata eng (nistControlId mapping)
                               in \<lparr>nistControlId = nistControlId mapping,
                                   confidence = confidence mapping,
                                   reasoning = reasoning mapping,
                                   nistTitle = fst nistMetadata,
                                   nistDescription = snd nistMetadata,
                                   isManualOverride = False\<rparr>))
                         (mappings analysisResult),
                     processingTimestamp = ar_timestamp analysisResult,
                     aiModel = ar_model analysisResult,
                     processingTime = ar_processingTime analysisResult\<rparr>
              in (job\<lparr>results := AList.update controlId mappingResult (results job)\<rparr>,
                  eng\<lparr>mappingResults := AList.update controlId mappingResult (mappingResults eng),
                      resultsQueue := resultsQueue eng @
                        [\<lparr>q_jobId = job_id job, q_result = mappingResult,
                          q_timestamp = clock completed\<rparr>]\<rparr>)))"

text \<open>
  \<open>processControlsAsync\<close>, run to its end with no other call of the engine in
  between. \<open>endNow\<close> is the \<open>new Date()\<close> of the end of the job.
\<close>

definition processControlsAsync ::
  "(nat \<Rightarrow> ISMControl \<Rightarrow> js_error + MappingAnalysisResult) \<Rightarrow> (nat \<Rightarrow> int) \<Rightarrow> int \<Rightarrow>
   ProcessingJob \<Rightarrow> ISMControl list \<Rightarrow> NISTControl list \<Rightarrow> MappingEngine \<Rightarrow>
   ProcessingJob \<times> MappingEngine" where
  "processControlsAsync analyze clock endNow job ismCs nistCs eng =
     (let job1 = job\<lparr>status := Processing\<rparr>
      in case aiService eng of
           None \<Rightarrow>
             (job1\<lparr>status := Failed, job_error := Some ''Ollama service not available'',
                   endTime := Some endNow\<rparr>, eng)
         | Some svc \<Rightarrow>
             (let run = batchAnalyzeControls analyze ismCs nistCs (Some (onProgress clock)) (job1, eng);
                  job2 = fst (snd run)
              in (job2\<lparr>status := Completed, endTime := Some endNow, progress := 100\<rparr>,
                  snd (snd run))))"

text \<open>
  The local \<open>ismControls\<close> of \<open>startProcessing\<close>: the controls found for the
  identifiers of the caller (\<open>.map(...).filter(Boolean)\<close>), or all controls.
\<close>

definition selectISMControls :: "ControlService \<Rightarrow> string list option \<Rightarrow> ISMControl list" where
  "selectISMControls cs controlIds =
     (case controlIds of
        Some ids \<Rightarrow> List.map_filter (getISMControlById cs) ids
      | None \<Rightarrow> getISMControls cs)"

text \<open>
  \<open>startProcessing\<close>. The job identifier and the start time come from the
  clock and the random generator and are parameters. The program starts the
  job in the background and returns; the model returns the state in which that
  job has run to its end, the job in the table being the object the run changes.
\<close>

definition startProcessing ::
  "(nat \<Rightarrow> ISMControl \<Rightarrow> js_error + MappingAnalysisResult) \<Rightarrow> (nat \<Rightarrow> int) \<Rightarrow> int \<Rightarrow>
   string \<Rightarrow> int \<Rightarrow> string list option \<Rightarrow> MappingEngine \<Rightarrow>
   (js_error + string) \<times> MappingEngine" where
  "startProcessing analyze clock endNow jobId now controlIds eng =
     (if aiService eng = None then (Inl (Error ''Ollama service not initialized''), eng)
      else if \<not> isReady (controlService eng)
      then (Inl (Error ''Control service not ready. Please load controls first.''), eng)
      else
        (let ismCs = selectISMControls (controlService eng) controlIds;
             nistCs = getNISTControls (controlService eng)
         in if length ismCs = 0 then (Inl (Error ''No ISM controls found to process''), eng)
            else if length nistCs = 0
            then (Inl (Error ''No NIST controls loaded for mapping reference''), eng)
            else
              (let job = \<lparr>job_id = jobId, status = Queued, progress = 0,
                          totalControls = length ismCs, processedControls = 0,
                          startTime = now, endTime = None, job_error = None, results = []\<rparr>;
                   eng1 = eng\<lparr>activeJobs := AList.update jobId job (activeJobs eng)\<rparr>;
                   run = processControlsAsync analyze clock endNow job ismCs nistCs eng1
               in (Inr jobId,
                   (snd run)\<lparr>activeJobs := AList.update jobId (fst run) (activeJobs (snd run))\<rparr>))))"

section \<open>ReportService: summary statistics\<close>

record ConfidenceDistribution =
  excellent :: nat
  veryGood :: nat
  good :: nat
  fair :: nat
  poor :: nat
  veryPoor :: nat

record SummaryStats =
  ss_totalISMControls :: nat
  ss_totalMappings :: nat
  confidenceDistribution :: ConfidenceDistribution
  familyDistribution :: "(string \<times> nat) list"
  manualOverrides :: nat
  averageProcessingTime :: real

definition countConfidence :: "real \<Rightarrow> ConfidenceDistribution \<Rightarrow> ConfidenceDistribution" where
  "countConfidence c d =
     (if c \<ge> 95 then d\<lparr>excellent := excellent d + 1\<rparr>
      else if c \<ge> 85 then d\<lparr>veryGood := veryGood d + 1\<rparr>
      else if c \<ge> 75 then d\<lparr>good := good d + 1\<rparr>
      else if c \<ge> 65 then d\<lparr>fair := fair d + 1\<rparr>
      else if c \<ge> 55 then d\<lparr>poor := poor d + 1\<rparr>
      else d\<lparr>veryPoor := veryPoor d + 1\<rparr>)"

definition summaryMappingStep ::
  "NISTControl list \<Rightarrow> NistMapping \<Rightarrow> SummaryStats \<Rightarrow> SummaryStats" where
  "summaryMappingStep nistCs nistMapping stats =
     (let s1 = stats\<lparr>ss_totalMappings := ss_totalMappings stats + 1,
                     confidenceDistribution :=
                       countConfidence (confidence nistMapping) (confidenceDistribution stats)\<rparr>;
          s2 = (if isManualOverride nistMapping
                then s1\<lparr>manualOverrides := manualOverrides s1 + 1\<rparr> else s1)
      in case find (\<lambda>c. nist_id c = nistControlId nistMapping) nistCs of
           None \<Rightarrow> s2
         | Some nistControl \<Rightarrow>
             s2\<lparr>familyDistribution :=
                  AList.update (nist_family nistControl)
                    ((case map_of (familyDistribution s2) (nist_family nistControl) of
                        None \<Rightarrow> 0 | Some n \<Rightarrow> n) + 1)
                    (familyDistribution s2)\<rparr>)"

text \<open>
  The outer loop carries \<open>totalProcessingTime\<close> beside the statistics.
\<close>

definition summaryResultStep ::
  "NISTControl list \<Rightarrow> MappingResult \<Rightarrow> real \<times> SummaryStats \<Rightarrow> real \<times> SummaryStats" where
  "summaryResultStep nistCs mapping st =
     (fst st + processingTime mapping,
      fold (summaryMappingStep nistCs) (nistMappings mapping) (snd st))"

definition generateSummaryStats :: "MappingResult list \<Rightarrow> NISTControl list \<Rightarrow> SummaryStats" where
  "generateSummaryStats reportMappings nistCs =
     (let st = fold (summaryResultStep nistCs) reportMappings
                 (0, \<lparr>ss_totalISMControls = length reportMappings, ss_totalMappings = 0,
                      confidenceDistribution =
                        \<lparr>excellent = 0, veryGood = 0, good = 0, fair = 0, poor = 0, veryPoor = 0\<rparr>,
                      familyDistribution = [], manualOverrides = 0,
                      averageProcessingTime = 0\<rparr>);
          totalTime = fst st;
          stats = snd st
      in stats\<lparr>averageProcessingTime :=
                 (if ss_totalMappings stats > 0
                  then totalTime / real (length reportMappings) else 0)\<rparr>)"


section \<open>Notions used to state the properties\<close>

text \<open>The confidences of all correspondences of all entries, pooled in one list.\<close>

definition allConfidences :: "MappingResult list \<Rightarrow> real list" where
  "allConfidences rs = concat (map (\<lambda>r. map confidence (nistMappings r)) rs)"

text \<open>A small catalog and an initialized engine, used to run the model on concrete input.\<close>

definition ex_ism :: "ISMControl list" where
  "ex_ism =
     [\<lparr>ism_id = ''ISM-0001'', ism_title = ''Access policy'', ism_description = ''Access is controlled'',
       implementationGuidance = ''Review access'', controlFamily = ''Access'', riskLevel = ''HIGH''\<rparr>,
      \<lparr>ism_id = ''ISM-0002'', ism_title = ''Audit logs'', ism_description = ''Events are logged'',
       implementationGuidance = ''Keep logs'', controlFamily = ''Logging'', riskLevel = ''LOW''\<rparr>]"

definition ex_nist :: "NISTControl list" where
  "ex_nist =
     [\<lparr>nist_id = ''ac-1'', nist_title = ''Policy and Procedures'',
       nist_description = ''Develop an access control policy'',
       nist_family = ''Access Control'', nist_class = ''SP800-53''\<rparr>]"

definition ex_engine :: MappingEngine where
  "ex_engine =
     \<lparr>aiService = Some ''llama3.1'',
      controlService =
        \<lparr>ismControls = ex_ism, nistControls = ex_nist,
         loadingStatus =
           \<lparr>isLoading = False, ismControlsLoaded = True, nistControlsLoaded = True,
            ismControlCount = 2, nistControlCount = 1, lastLoadTime = Some 1000,
            load_error = None\<rparr>\<rparr>,
      activeJobs = [], mappingResults = [], resultsQueue = []\<rparr>"

definition ex_entry :: MappingResult where
  "ex_entry =
     \<lparr>ismControlId = ''ISM-0001'',
      nistMappings =
        [\<lparr>nistControlId = ''AC-1'', confidence = 85, reasoning = JString ''Same intent'',
          nistTitle = ''Policy and Procedures'',
          nistDescription = ''Develop an access control policy'',
          isManualOverride = False\<rparr>],
      processingTimestamp = 2000, aiModel = ''llama3.1'', processingTime = 1500\<rparr>"

text \<open>
  A response whose only candidate carries the number 5 as its reasoning, and the
  value \<open>JSON.parse\<close> gives for it.
\<close>

definition ex_response_numeric_reasoning :: string where
  \<open>ex_response_numeric_reasoning =
     ''{"mappings":[{"nistControlId":"AC-2","confidence":80,"reasoning":5}]}''\<close>

definition ex_parsed_numeric_reasoning :: json where
  "ex_parsed_numeric_reasoning =
     JObject [(''mappings'', JArray [JObject [(''nistControlId'', JString ''AC-2''),
        (''confidence'', JNumber 80), (''reasoning'', JNumber 5)]])]"

text \<open>Outcomes of the analyses of a batch: the first call raises, the others succeed.\<close>

definition ex_analyze :: "nat \<Rightarrow> ISMControl \<Rightarrow> js_error + MappingAnalysisResult" where
  "ex_analyze k c =
     (if k = 0 then Inl (Error ''Ollama analysis failed: timeout of 180000ms exceeded'')
      else Inr \<lparr>mappings = [\<lparr>nistControlId = ''AC-1'', confidence = 85,
                               reasoning = JString ''Same intent''\<rparr>],
                ar_processingTime = 1500, ar_model = ''llama3.1'', ar_timestamp = 2000\<rparr>)"

text \<open>
  A response that names the same NIST control twice, in two spellings, and the
  value \<open>JSON.parse\<close> gives for it; an analysis that receives it; and the
  engine after a job on one control that received it.
\<close>

definition ex_response_duplicate :: string where
  \<open>ex_response_duplicate =
     ''{"mappings":[{"nistControlId":"AC-1","confidence":85,"reasoning":"Same intent"},{"nistControlId":"ac-1","confidence":60,"reasoning":"Partly"}]}''\<close>

definition ex_parsed_duplicate :: json where
  "ex_parsed_duplicate =
     JObject [(''mappings'', JArray
       [JObject [(''nistControlId'', JString ''AC-1''), (''confidence'', JNumber 85),
                 (''reasoning'', JString ''Same intent'')],
        JObject [(''nistControlId'', JString ''ac-1''), (''confidence'', JNumber 60),
                 (''reasoning'', JString ''Partly'')]])]"

definition ex_analyze_duplicate :: "nat \<Rightarrow> ISMControl \<Rightarrow> js_error + MappingAnalysisResult" where
  "ex_analyze_duplicate k c =
     analyzeControlMapping (Map.empty(ex_response_duplicate \<mapsto> ex_parsed_duplicate)) ''llama3.1''
       \<lparr>reply = Replies (Some ex_response_duplicate), elapsed = 1500, finishedAt = 2000\<rparr>"

definition ex_engine_duplicate :: MappingEngine where
  "ex_engine_duplicate =
     snd (startProcessing ex_analyze_duplicate (\<lambda>k. 2050) 9000 ''job_1'' 1000
            (Some [''ISM-0001'']) ex_engine)"

text \<open>
  The target identifiers of the correspondences of an entry, in order, and the
  property that no entry of the engine has two correspondences with the same one.
\<close>

definition targetIds :: "MappingResult \<Rightarrow> string list" where
  "targetIds r = map nistControlId (nistMappings r)"

definition targetsDistinct :: "MappingEngine \<Rightarrow> bool" where
  "targetsDistinct eng = list_all (\<lambda>r. distinct (targetIds r)) (map snd (mappingResults eng))"

text \<open>
  The calls that change the entries of the engine: the two override operations,
  the write of an analysis result by the progress callback of a job, and reset.
\<close>

datatype engine_call =
    Override int string string real string
  | RemoveOverride string string
  | AnalysisWrite "nat \<Rightarrow> int" nat nat ProcessingJob string MappingAnalysisResult
  | Reset

fun run_call :: "engine_call \<Rightarrow> MappingEngine \<Rightarrow> MappingEngine" where
  "run_call (Override now ismId nid conf reas) eng = applyManualOverride now ismId nid conf reas eng"
| "run_call (RemoveOverride ismId nid) eng = removeManualOverride ismId nid eng"
| "run_call (AnalysisWrite clock completed totalN job controlId res) eng =
     snd (onProgress clock completed totalN (Some (controlId, res)) (job, eng))"
| "run_call Reset eng = reset eng"

text \<open>
  The candidates that an analysis write brings have pairwise distinct target
  identifiers (as the parser returned them).
\<close>

fun candidatesDistinct :: "engine_call \<Rightarrow> bool" where
  "candidatesDistinct (AnalysisWrite clock completed totalN job controlId res) =
     distinct (map nistControlId (mappings res))"
| "candidatesDistinct call = True"

text \<open>
  The number of correspondences of an entry for a target identifier, and the
  same for the entry of a control in the engine (0 when it has no entry).
\<close>

definition countTarget :: "string \<Rightarrow> MappingResult \<Rightarrow> nat" where
  "countTarget nid r = length (filter (\<lambda>m. nistControlId m = nid) (nistMappings r))"

definition countTargetIn :: "MappingEngine \<Rightarrow> string \<Rightarrow> string \<Rightarrow> nat" where
  "countTargetIn eng ismId nid =
     (case map_of (mappingResults eng) ismId of None \<Rightarrow> 0 | Some r \<Rightarrow> countTarget nid r)"

text \<open>
  A job and a sequence of calls, used to run the model on concrete input.
\<close>

definition ex_job :: ProcessingJob where
  "ex_job = \<lparr>job_id = ''job_2'', status = Processing, progress = 0, totalControls = 1,
             processedControls = 0, startTime = 1000, endTime = None, job_error = None,
             results = []\<rparr>"

definition ex_calls :: "engine_call list" where
  "ex_calls =
     [Override 3000 ''ISM-0001'' ''ac-1'' 95 ''Manual review'',
      Override 3100 ''ISM-0001'' ''ac-1'' 40 ''Second look'',
      AnalysisWrite (\<lambda>k. 2050) 1 1 ex_job ''ISM-0002''
        \<lparr>mappings = [\<lparr>nistControlId = ''AC-1'', confidence = 85,
                       reasoning = JString ''Same intent''\<rparr>],
         ar_processingTime = 1500, ar_model = ''llama3.1'', ar_timestamp = 2000\<rparr>,
      Override 3200 ''ISM-0002'' ''AC-1'' 90 ''Confirmed'',
      Override 3300 ''ISM-0002'' ''AC-2'' 70 ''Also related'']"

text \<open>
  Every correspondence of every entry carries a title and a description that are
  not empty.
\<close>

definition metadataStored :: "MappingEngine \<Rightarrow> bool" where
  "metadataStored eng =
     list_all (\<lambda>r. list_all (\<lambda>m. nistTitle m \<noteq> [] \<and> nistDescription m \<noteq> []) (nistMappings r))
       (map snd (mappingResults eng))"

text \<open>
  The catalog reloaded with another title and description for the same control;
  the engine after the job of \<open>ex_analyze\<close>, and the same engine once the control
  service has loaded the new catalog.
\<close>

definition ex_nist_reloaded :: "NISTControl list" where
  "ex_nist_reloaded =
     [\<lparr>nist_id = ''ac-1'', nist_title = ''Access Control Policy and Procedures'',
       nist_description = ''Develop, document and disseminate an access control policy'',
       nist_family = ''Access Control'', nist_class = ''SP800-53''\<rparr>]"

definition ex_engine_processed :: MappingEngine where
  "ex_engine_processed =
     snd (startProcessing ex_analyze (\<lambda>k. 2050) 9000 ''job_1'' 1000 None ex_engine)"

definition ex_engine_reloaded :: MappingEngine where
  "ex_engine_reloaded =
     ex_engine_processed\<lparr>controlService :=
       snd (loadNISTControls (Inr ex_nist_reloaded) (controlService ex_engine_processed))\<rparr>"

text \<open>
  The result of one analysis, and a correspondence stored without a title, as an
  entry written before titles were stored may hold.
\<close>

definition ex_analysis :: MappingAnalysisResult where
  "ex_analysis =
     \<lparr>mappings = [\<lparr>nistControlId = ''AC-1'', confidence = 85,
                    reasoning = JString ''Same intent''\<rparr>],
      ar_processingTime = 1500, ar_model = ''llama3.1'', ar_timestamp = 2000\<rparr>"

definition ex_untitled :: NistMapping where
  "ex_untitled =
     \<lparr>nistControlId = ''AC-1'', confidence = 60, reasoning = JString ''Secondary mapping'',
      nistTitle = [], nistDescription = ''Develop an access control policy'',
      isManualOverride = False\<rparr>"

section \<open>Statistics of the mapping state\<close>

lemma fold_metadataMappingStep:
  "fold metadataMappingStep ms acc =
     acc\<lparr>totalConfidence := totalConfidence acc + sum_list (map confidence ms),
         mappingCount := mappingCount acc + int (length ms),
         highConfidenceCount :=
           highConfidenceCount acc + int (length (filter (\<lambda>m. confidence m \<ge> 70) ms))\<rparr>"
  by (induction ms arbitrary: acc) (simp_all add: metadataMappingStep_def)

lemma fold_metadataResultStep_conf:
  "totalConfidence (fold metadataResultStep rs acc) =
     totalConfidence acc + sum_list (allConfidences rs) \<and>
   mappingCount (fold metadataResultStep rs acc) =
     mappingCount acc + int (length (allConfidences rs))"
  by (induction rs arbitrary: acc)
     (simp_all add: metadataResultStep_def fold_metadataMappingStep allConfidences_def)

text \<open>
  Claim C6. For every engine state, whatever the number of ISM controls in the
  control service: \<open>unmappedControls\<close> plus the number of entries is
  \<open>totalISMControls\<close>, which is that number of controls; and
  \<open>averageConfidence\<close> is the sum of the confidences of all correspondences of
  all entries divided by their number, and 0 when there is no correspondence.
\<close>

theorem stats_consistency:
  "unmappedControls (calculateProcessingMetadata now eng) + int (length (mappingResults eng))
     = totalISMControls (calculateProcessingMetadata now eng) \<and>
   totalISMControls (calculateProcessingMetadata now eng)
     = int (length (getISMControls (controlService eng))) \<and>
   averageConfidence (calculateProcessingMetadata now eng)
     = (if allConfidences (map snd (mappingResults eng)) = [] then 0
        else sum_list (allConfidences (map snd (mappingResults eng)))
               / real (length (allConfidences (map snd (mappingResults eng)))))"
  by (simp add: calculateProcessingMetadata_def Let_def fold_metadataResultStep_conf)

section \<open>Reset\<close>



section \<open>Parsing the response\<close>

lemma parseMapping_InrD:
  assumes "parseMapping m = Inr cm"
  shows "\<exists>s c r. get_prop m ''nistControlId'' = Inr (Some (JString s)) \<and> s \<noteq> []
         \<and> get_prop m ''confidence'' = Inr (Some (JNumber c))
         \<and> get_prop m ''reasoning'' = Inr (Some r) \<and> truthy (Some r)
         \<and> cm = \<lparr>nistControlId = normalizeNistControlId s, confidence = max 0 (min 100 c),
                  reasoning = r\<rparr>"
  using assms
  by (auto simp: parseMapping_def split: sum.splits if_splits option.splits json.splits)

text \<open>
  Claim C7. A candidate that the parser accepts had a string \<open>s\<close> as
  \<open>nistControlId\<close> and a number \<open>c\<close> as \<open>confidence\<close>; the candidate returned
  carries \<open>s\<close> in upper case and trimmed, and \<open>c\<close> clamped into the interval from
  0 to 100: an input of at most 0 gives 0, one of at least 100 gives 100, one in
  between is unchanged, and a larger input never gives a smaller value.
\<close>

theorem parsed_candidate_normalized:
  assumes "parseMapping m = Inr cm"
  shows "\<exists>s c. get_prop m ''nistControlId'' = Inr (Some (JString s))
         \<and> get_prop m ''confidence'' = Inr (Some (JNumber c))
         \<and> nistControlId cm = trim (toUpperCase s)
         \<and> confidence cm = max 0 (min 100 c)
         \<and> 0 \<le> confidence cm \<and> confidence cm \<le> 100
         \<and> (c \<le> 0 \<longrightarrow> confidence cm = 0)
         \<and> (100 \<le> c \<longrightarrow> confidence cm = 100)
         \<and> (0 \<le> c \<and> c \<le> 100 \<longrightarrow> confidence cm = c)
         \<and> (\<forall>m' cm' c'. parseMapping m' = Inr cm'
                \<and> get_prop m' ''confidence'' = Inr (Some (JNumber c')) \<and> c \<le> c'
              \<longrightarrow> confidence cm \<le> confidence cm')"
proof -
  from parseMapping_InrD [OF assms] obtain s c r where
    s: "get_prop m ''nistControlId'' = Inr (Some (JString s))" and
    c: "get_prop m ''confidence'' = Inr (Some (JNumber c))" and
    cm: "cm = \<lparr>nistControlId = normalizeNistControlId s, confidence = max 0 (min 100 c),
               reasoning = r\<rparr>"
    by blast
  have mono: "confidence cm \<le> confidence cm'"
    if "parseMapping m' = Inr cm'" "get_prop m' ''confidence'' = Inr (Some (JNumber c'))" "c \<le> c'"
    for m' cm' c'
  proof -
    from parseMapping_InrD [OF that(1)] that(2)
    have "confidence cm' = max 0 (min 100 c')" by auto
    with cm that(3) show ?thesis by auto
  qed
  show ?thesis
    apply (rule exI [of _ s], rule exI [of _ c])
    using s c cm mono by (auto simp: normalizeNistControlId_def)
qed

theorem parsed_candidate_normalized_witness:
  "parseMapping (JObject [(''nistControlId'', JString '' ac-2 ''), (''confidence'', JNumber 150),
       (''reasoning'', JString ''Close match'')])
     = Inr \<lparr>nistControlId = ''AC-2'', confidence = 100, reasoning = JString ''Close match''\<rparr>
   \<and> nistControlId \<lparr>nistControlId = ''AC-2'', confidence = 100, reasoning = JString ''Close match''\<rparr>
       = trim (toUpperCase '' ac-2 '')
   \<and> confidence \<lparr>nistControlId = ''AC-2'', confidence = 100, reasoning = JString ''Close match''\<rparr>
       = max 0 (min 100 150)"
proof -
  let ?m = "JObject [(''nistControlId'', JString '' ac-2 ''), (''confidence'', JNumber 150),
       (''reasoning'', JString ''Close match'')]"
  let ?cm = "\<lparr>nistControlId = ''AC-2'', confidence = 100, reasoning = JString ''Close match''\<rparr>"
  have h: "parseMapping ?m = Inr ?cm"
    by code_simp
  from parsed_candidate_normalized [OF h] obtain s c where
    "get_prop ?m ''nistControlId'' = Inr (Some (JString s))"
    "get_prop ?m ''confidence'' = Inr (Some (JNumber c))"
    "nistControlId ?cm = trim (toUpperCase s)"
    "confidence ?cm = max 0 (min 100 c)"
    by blast
  then have "nistControlId ?cm = trim (toUpperCase '' ac-2 '')"
    "confidence ?cm = max 0 (min 100 150)"
    by simp_all
  with h show ?thesis by blast
qed

text \<open>
  The parser never raises (it is a total function to lists of candidates), and it
  returns the single fallback candidate whenever the \<open>try\<close> block raises: no
  brace-delimited text, a syntax error, no \<open>mappings\<close> array, or an element that
  the callback rejects.
\<close>

lemma parseResponse_fallback:
  assumes "extractJson content = None
         \<or> (\<exists>j. extractJson content = Some j \<and> JSON_parse j = None)
         \<or> (\<exists>j parsed. extractJson content = Some j \<and> JSON_parse j = Some parsed
               \<and> (\<forall>ms. get_prop parsed ''mappings'' \<noteq> Inr (Some (JArray ms))))
         \<or> (\<exists>j parsed ms m. extractJson content = Some j \<and> JSON_parse j = Some parsed
               \<and> get_prop parsed ''mappings'' = Inr (Some (JArray ms)) \<and> m \<in> set ms
               \<and> isl (parseMapping m))"
  shows "parseResponse JSON_parse content = [fallbackMapping]"
proof -
  have bad: "isl (parseMappings ms)" if "m \<in> set ms" "isl (parseMapping m)" for ms m
    using that by (induction ms) (auto split: sum.splits)
  from assms show ?thesis
    by (auto simp: parseResponse_def parseResponse_try_def dest: bad
        split: option.splits sum.splits json.splits)
qed

lemma parseMapping_missing_field:
  assumes "get_prop m ''nistControlId'' = Inr None
         \<or> get_prop m ''confidence'' = Inr None
         \<or> get_prop m ''reasoning'' = Inr None
         \<or> (\<forall>s. get_prop m ''nistControlId'' \<noteq> Inr (Some (JString s)))
         \<or> (\<forall>c. get_prop m ''confidence'' \<noteq> Inr (Some (JNumber c)))"
  shows "isl (parseMapping m)"
  using assms
  by (auto simp: parseMapping_def split: sum.splits option.splits json.splits)

text \<open>
  Claim C2, at the input where the program departs from it. The only candidate of
  this response has the number 5 where a string reasoning is required; the parser
  does not fall back, it returns the candidate with the number as its reasoning.
\<close>

theorem parseResponse_accepts_numeric_reasoning:
  "parseResponse (Map.empty(ex_response_numeric_reasoning \<mapsto> ex_parsed_numeric_reasoning))
     ex_response_numeric_reasoning
   = [\<lparr>nistControlId = ''AC-2'', confidence = 80, reasoning = JNumber 5\<rparr>]
   \<and> [\<lparr>nistControlId = ''AC-2'', confidence = 80, reasoning = JNumber 5\<rparr>] \<noteq> [fallbackMapping]"
  by code_simp

section \<open>Summary statistics of a report\<close>

text \<open>
  What \<open>generateSummaryStats\<close> computes as \<open>averageProcessingTime\<close>: the sum of
  the entry times divided by the number of entries, unless no entry has a
  correspondence, and then 0.
\<close>

lemma fold_summaryMappingStep_total:
  "ss_totalMappings (fold (summaryMappingStep nistCs) ms stats) = ss_totalMappings stats + length ms"
  by (induction ms arbitrary: stats)
     (simp_all add: summaryMappingStep_def Let_def split: option.splits)

lemma fold_summaryResultStep:
  "fst (fold (summaryResultStep nistCs) rs st) = fst st + sum_list (map processingTime rs)
   \<and> ss_totalMappings (snd (fold (summaryResultStep nistCs) rs st)) =
       ss_totalMappings (snd st) + length (concat (map nistMappings rs))"
  by (induction rs arbitrary: st)
     (simp_all add: summaryResultStep_def fold_summaryMappingStep_total)

lemma generateSummaryStats_average:
  "averageProcessingTime (generateSummaryStats rs nistCs) =
     (if concat (map nistMappings rs) = [] then 0
      else sum_list (map processingTime rs) / real (length rs))"
  by (simp add: generateSummaryStats_def Let_def fold_summaryResultStep)

text \<open>
  Claim C9, at the input where the program departs from it. The report has one
  entry, analysed in 1500 ms, with no correspondence (the model answered with an
  empty \<open>mappings\<close> array): the mean of the entry times is 1500, and
  \<open>averageProcessingTime\<close> is 0, because the guard of the division tests the
  number of correspondences and not the number of entries.
\<close>

theorem averageProcessingTime_zero_without_correspondences:
  "averageProcessingTime (generateSummaryStats [ex_entry\<lparr>nistMappings := []\<rparr>] ex_nist) = 0
   \<and> processingTime (ex_entry\<lparr>nistMappings := []\<rparr>)
       / real (length [ex_entry\<lparr>nistMappings := []\<rparr>]) = 1500"
  by (simp add: generateSummaryStats_def summaryResultStep_def ex_entry_def)

section \<open>Starting and running a job\<close>

lemma onProgress_job:
  "processedControls (fst (onProgress clock k t lr st)) = k"
  "totalControls (fst (onProgress clock k t lr st)) = totalControls (fst st)"
  "job_id (fst (onProgress clock k t lr st)) = job_id (fst st)"
  "status (fst (onProgress clock k t lr st)) = status (fst st)"
  by (simp_all add: onProgress_def Let_def split: option.splits prod.splits)

lemma onProgress_engine_frame:
  "controlService (snd (onProgress clock k t lr st)) = controlService (snd st)"
  "activeJobs (snd (onProgress clock k t lr st)) = activeJobs (snd st)"
  "aiService (snd (onProgress clock k t lr st)) = aiService (snd st)"
  by (simp_all add: onProgress_def Let_def split: option.splits prod.splits)

lemma onProgress_failed_item:
  "snd (onProgress clock k t None st) = snd st"
  by (simp add: onProgress_def Let_def)

lemma onProgress_other_entry:
  "i \<noteq> cid \<Longrightarrow>
   map_of (mappingResults (snd (onProgress clock k t (Some (cid, res)) st))) i =
     map_of (mappingResults (snd st)) i"
  by (simp add: onProgress_def Let_def update_conv')

lemma onProgress_written_entry:
  "map_of (mappingResults (snd (onProgress clock k t (Some (cid, res)) st))) cid \<noteq> None"
  by (simp add: onProgress_def Let_def update_conv')

lemma batchLoop_job:
  "processedControls (fst (snd (batchLoop analyze (Some (onProgress clock)) t cs k rs st))) =
     (if cs = [] then processedControls (fst st) else k + length cs)
   \<and> totalControls (fst (snd (batchLoop analyze (Some (onProgress clock)) t cs k rs st))) =
       totalControls (fst st)
   \<and> job_id (fst (snd (batchLoop analyze (Some (onProgress clock)) t cs k rs st))) = job_id (fst st)
   \<and> status (fst (snd (batchLoop analyze (Some (onProgress clock)) t cs k rs st))) = status (fst st)"
proof (induction cs arbitrary: k rs st)
  case Nil
  show ?case by simp
next
  case (Cons c cs)
  show ?case
    by (cases "analyze k c") (simp_all add: Cons.IH onProgress_job)
qed

lemma batchLoop_engine_frame:
  "controlService (snd (snd (batchLoop analyze (Some (onProgress clock)) t cs k rs st))) =
     controlService (snd st)
   \<and> activeJobs (snd (snd (batchLoop analyze (Some (onProgress clock)) t cs k rs st))) =
       activeJobs (snd st)
   \<and> aiService (snd (snd (batchLoop analyze (Some (onProgress clock)) t cs k rs st))) =
       aiService (snd st)"
proof (induction cs arbitrary: k rs st)
  case Nil
  show ?case by simp
next
  case (Cons c cs)
  show ?case
    by (cases "analyze k c") (simp_all add: Cons.IH onProgress_engine_frame)
qed

lemma batchLoop_failed_ids:
  assumes "\<forall>j<length cs. ism_id (cs ! j) = i \<longrightarrow> isl (analyze (k + j) (cs ! j))"
  shows "map_of (mappingResults (snd (snd (batchLoop analyze (Some (onProgress clock)) t cs k rs st)))) i
       = map_of (mappingResults (snd st)) i"
  using assms
proof (induction cs arbitrary: k rs st)
  case Nil
  show ?case by simp
next
  case (Cons c cs)
  have tl: "\<forall>j<length cs. ism_id (cs ! j) = i \<longrightarrow> isl (analyze (Suc k + j) (cs ! j))"
  proof (intro allI impI)
    fix j assume "j < length cs" "ism_id (cs ! j) = i"
    with Cons.prems [rule_format, of "Suc j"] show "isl (analyze (Suc k + j) (cs ! j))" by simp
  qed
  show ?case
  proof (cases "analyze k c")
    case (Inl e)
    then show ?thesis
      using Cons.IH [OF tl] by (simp add: onProgress_failed_item)
  next
    case (Inr res)
    with Cons.prems [rule_format, of 0] have "ism_id c \<noteq> i" by auto
    with Inr show ?thesis
      using Cons.IH [OF tl] by (simp add: onProgress_other_entry)
  qed
qed

lemma batchLoop_success_written:
  assumes "j < length cs" "\<not> isl (analyze (k + j) (cs ! j))"
  shows "map_of (mappingResults (snd (snd (batchLoop analyze (Some (onProgress clock)) t cs k rs st))))
           (ism_id (cs ! j)) \<noteq> None"
  using assms
proof (induction cs arbitrary: k rs st j)
  case Nil
  then show ?case by simp
next
  case (Cons c cs)
  have keep: "map_of (mappingResults (snd (snd (batchLoop analyze (Some (onProgress clock)) t cs k' rs' st')))) i \<noteq> None"
    if "map_of (mappingResults (snd st')) i \<noteq> None" for k' rs' st' i
    using that
  proof (induction cs arbitrary: k' rs' st')
    case Nil
    then show ?case by simp
  next
    case (Cons d ds)
    show ?case
    proof (cases "analyze k' d")
      case (Inl e)
      then show ?thesis using Cons by (simp add: onProgress_failed_item)
    next
      case (Inr res)
      have "map_of (mappingResults (snd (onProgress clock (Suc k') t (Some (ism_id d, res)) st'))) i \<noteq> None"
        using Cons.prems
        by (cases "i = ism_id d") (simp_all add: onProgress_written_entry onProgress_other_entry)
      with Inr show ?thesis using Cons.IH by simp
    qed
  qed
  show ?case
  proof (cases j)
    case 0
    with Cons.prems obtain res where res: "analyze k c = Inr res"
      by (cases "analyze k c") auto
    have "map_of (mappingResults (snd (onProgress clock (Suc k) t (Some (ism_id c, res)) st))) (ism_id c) \<noteq> None"
      by (rule onProgress_written_entry)
    with res 0 show ?thesis using keep by simp
  next
    case (Suc j')
    with Cons.prems have "j' < length cs" "\<not> isl (analyze (Suc k + j') (cs ! j'))" by simp_all
    from Cons.IH [OF this] Suc show ?thesis
      by (cases "analyze k c") simp_all
  qed
qed


lemma processControlsAsync_job:
  assumes "aiService eng \<noteq> None"
  shows "status (fst (processControlsAsync analyze clock endNow job cs ns eng)) = Completed"
    "totalControls (fst (processControlsAsync analyze clock endNow job cs ns eng)) = totalControls job"
    "processedControls (fst (processControlsAsync analyze clock endNow job cs ns eng)) =
       (if cs = [] then processedControls job else length cs)"
  using assms
  by (auto simp: processControlsAsync_def batchAnalyzeControls_def Let_def batchLoop_job)

lemma processControlsAsync_engine:
  assumes "aiService eng \<noteq> None"
  shows "activeJobs (snd (processControlsAsync analyze clock endNow job cs ns eng)) = activeJobs eng"
    "mappingResults (snd (processControlsAsync analyze clock endNow job cs ns eng)) =
       mappingResults (snd (snd (batchLoop analyze (Some (onProgress clock)) (length cs) cs 0 []
          (job\<lparr>status := Processing\<rparr>, eng))))"
  using assms
  by (auto simp: processControlsAsync_def batchAnalyzeControls_def Let_def batchLoop_engine_frame)


lemma getISMControlById_id:
  "getISMControlById cs i = Some c \<Longrightarrow> ism_id c = i"
  by (auto simp: getISMControlById_def find_Some_iff)

lemma selectISMControls_ids:
  "map ism_id (selectISMControls cs (Some ids)) =
     filter (\<lambda>i. getISMControlById cs i \<noteq> None) ids"
proof (induction ids)
  case Nil
  show ?case by (simp add: selectISMControls_def List.map_filter_simps)
next
  case (Cons i ids)
  then show ?case
    by (auto simp: selectISMControls_def List.map_filter_simps
        dest: getISMControlById_id split: option.splits)
qed

text \<open>
  Claim C3. When \<open>startProcessing\<close> starts a job on a batch of \<open>N\<close> controls,
  whatever analyses raise and whatever analyses succeed, the job found under the
  returned identifier has status \<open>completed\<close> and \<open>processedControls = N\<close>
  (\<open>= totalControls\<close>); an identifier all of whose analyses raised has the entry
  it had before the job (none if it had none), and every control whose analysis
  succeeded has an entry. When the caller gives identifiers that are all known,
  the batch is made of exactly these, so \<open>N\<close> is their number.
\<close>

theorem batch_completeness:
  assumes "startProcessing analyze clock endNow jobId now controlIds eng = (Inr jid, eng')"
  shows "\<exists>job. getJobStatus eng' jid = Some job
           \<and> status job = Completed
           \<and> totalControls job = length (selectISMControls (controlService eng) controlIds)
           \<and> processedControls job = length (selectISMControls (controlService eng) controlIds)
           \<and> (\<forall>i. (\<forall>k<length (selectISMControls (controlService eng) controlIds).
                       ism_id (selectISMControls (controlService eng) controlIds ! k) = i \<longrightarrow>
                       isl (analyze k (selectISMControls (controlService eng) controlIds ! k)))
                  \<longrightarrow> map_of (mappingResults eng') i = map_of (mappingResults eng) i)
           \<and> (\<forall>k<length (selectISMControls (controlService eng) controlIds).
                  \<not> isl (analyze k (selectISMControls (controlService eng) controlIds ! k))
                  \<longrightarrow> map_of (mappingResults eng')
                        (ism_id (selectISMControls (controlService eng) controlIds ! k)) \<noteq> None)
           \<and> (\<forall>ids. controlIds = Some ids
                  \<and> list_all (\<lambda>i. getISMControlById (controlService eng) i \<noteq> None) ids
                  \<longrightarrow> map ism_id (selectISMControls (controlService eng) controlIds) = ids)"
proof -
  define batch where "batch = selectISMControls (controlService eng) controlIds"
  define job0 where "job0 = \<lparr>job_id = jobId, status = Queued, progress = 0,
      totalControls = length batch, processedControls = 0, startTime = now, endTime = None,
      job_error = None, results = []\<rparr>"
  define eng1 where "eng1 = eng\<lparr>activeJobs := AList.update jobId job0 (activeJobs eng)\<rparr>"
  define run where "run = processControlsAsync analyze clock endNow job0 batch
      (getNISTControls (controlService eng)) eng1"
  from assms have ai: "aiService eng \<noteq> None" and ne: "batch \<noteq> []" and jid: "jid = jobId"
    and eng': "eng' = (snd run)\<lparr>activeJobs := AList.update jobId (fst run) (activeJobs (snd run))\<rparr>"
    by (auto simp: startProcessing_def Let_def batch_def job0_def eng1_def run_def
        split: if_splits)
  from ai have ai1: "aiService eng1 \<noteq> None" by (simp add: eng1_def)
  have job: "getJobStatus eng' jid = Some (fst run)"
    by (simp add: eng' jid getJobStatus_def update_conv')
  have st: "status (fst run) = Completed" "totalControls (fst run) = length batch"
    "processedControls (fst run) = length batch"
    using processControlsAsync_job [OF ai1, of analyze clock endNow job0 batch
        "getNISTControls (controlService eng)"] ne
    by (simp_all add: run_def job0_def)
  have mr: "mappingResults eng' = mappingResults (snd (snd (batchLoop analyze
      (Some (onProgress clock)) (length batch) batch 0 [] (job0\<lparr>status := Processing\<rparr>, eng1))))"
    using processControlsAsync_engine(2) [OF ai1] by (simp add: eng' run_def)
  have failed: "map_of (mappingResults eng') i = map_of (mappingResults eng) i"
    if "\<forall>k<length batch. ism_id (batch ! k) = i \<longrightarrow> isl (analyze k (batch ! k))" for i
    using batchLoop_failed_ids [of batch i analyze 0 clock "length batch" "[]"
        "(job0\<lparr>status := Processing\<rparr>, eng1)"] that
    by (simp add: mr eng1_def)
  have written: "map_of (mappingResults eng') (ism_id (batch ! k)) \<noteq> None"
    if "k < length batch" "\<not> isl (analyze k (batch ! k))" for k
    using batchLoop_success_written [of k batch analyze 0 clock "length batch" "[]"
        "(job0\<lparr>status := Processing\<rparr>, eng1)"] that
    by (simp add: mr)
  have valid: "map ism_id batch = ids"
    if "controlIds = Some ids"
      "list_all (\<lambda>i. getISMControlById (controlService eng) i \<noteq> None) ids" for ids
    using that by (simp add: batch_def selectISMControls_ids list_all_iff)
  show ?thesis
    unfolding batch_def [symmetric]
    using job st failed written valid by blast
qed


text \<open>
  Claim C5. \<open>startProcessing\<close> raises "not initialized" when no service was
  given to the engine; otherwise "not ready" when the control service is not
  ready; otherwise "no ISM controls found" when the batch is empty. Identifiers
  of the caller that the control service does not know are left out of the batch
  and raise nothing: the batch is made of the known identifiers, in order, and
  the call succeeds when one is known and NIST controls are loaded. Whenever the
  call raises, the engine (jobs, entries and all) is as it was.
\<close>

theorem startProcessing_preconditions:
  "(aiService eng = None \<longrightarrow>
      startProcessing analyze clock endNow jobId now controlIds eng =
        (Inl (Error ''Ollama service not initialized''), eng))
   \<and> (aiService eng \<noteq> None \<and> \<not> isReady (controlService eng) \<longrightarrow>
      startProcessing analyze clock endNow jobId now controlIds eng =
        (Inl (Error ''Control service not ready. Please load controls first.''), eng))
   \<and> (aiService eng \<noteq> None \<and> isReady (controlService eng)
        \<and> selectISMControls (controlService eng) controlIds = [] \<longrightarrow>
      startProcessing analyze clock endNow jobId now controlIds eng =
        (Inl (Error ''No ISM controls found to process''), eng))
   \<and> (\<forall>ids. map ism_id (selectISMControls (controlService eng) (Some ids)) =
          filter (\<lambda>i. getISMControlById (controlService eng) i \<noteq> None) ids)
   \<and> (aiService eng \<noteq> None \<and> isReady (controlService eng)
        \<and> selectISMControls (controlService eng) controlIds \<noteq> []
        \<and> getNISTControls (controlService eng) \<noteq> [] \<longrightarrow>
      fst (startProcessing analyze clock endNow jobId now controlIds eng) = Inr jobId)
   \<and> (\<forall>e. fst (startProcessing analyze clock endNow jobId now controlIds eng) = Inl e \<longrightarrow>
          snd (startProcessing analyze clock endNow jobId now controlIds eng) = eng)"
  by (simp add: startProcessing_def Let_def selectISMControls_ids)


theorem batch_completeness_witness:
  "fst (startProcessing ex_analyze (\<lambda>k. 2050) 9000 ''job_1'' 1000
          (Some [''ISM-0001'', ''ISM-0002'']) ex_engine) = Inr ''job_1''
   \<and> (\<exists>job. getJobStatus (snd (startProcessing ex_analyze (\<lambda>k. 2050) 9000 ''job_1'' 1000
                 (Some [''ISM-0001'', ''ISM-0002'']) ex_engine)) ''job_1'' = Some job
          \<and> status job = Completed \<and> processedControls job = 2)
   \<and> isl (ex_analyze 0 (ex_ism ! 0)) \<and> \<not> isl (ex_analyze 1 (ex_ism ! 1))
   \<and> map_of (mappingResults (snd (startProcessing ex_analyze (\<lambda>k. 2050) 9000 ''job_1'' 1000
         (Some [''ISM-0001'', ''ISM-0002'']) ex_engine))) ''ISM-0001'' = None
   \<and> map_of (mappingResults (snd (startProcessing ex_analyze (\<lambda>k. 2050) 9000 ''job_1'' 1000
         (Some [''ISM-0001'', ''ISM-0002'']) ex_engine))) ''ISM-0002'' \<noteq> None
   \<and> map ism_id (selectISMControls (controlService ex_engine) (Some [''ISM-0001'', ''ISM-0002'']))
       = [''ISM-0001'', ''ISM-0002'']"
proof -
  let ?ids = "Some [''ISM-0001'', ''ISM-0002'']"
  let ?r = "startProcessing ex_analyze (\<lambda>k. 2050) 9000 ''job_1'' 1000 ?ids ex_engine"
  have sel: "selectISMControls (controlService ex_engine) ?ids = ex_ism"
    by code_simp
  have known: "list_all (\<lambda>i. getISMControlById (controlService ex_engine) i \<noteq> None)
      [''ISM-0001'', ''ISM-0002'']"
    by code_simp
  have len: "length ex_ism = 2" "ex_ism \<noteq> []"
    "ism_id (ex_ism ! 0) = ''ISM-0001''" "ism_id (ex_ism ! 1) = ''ISM-0002''"
    by (simp_all add: ex_ism_def)
  have ai: "aiService ex_engine \<noteq> None" "isReady (controlService ex_engine)"
    "getNISTControls (controlService ex_engine) \<noteq> []"
    by (simp_all add: ex_engine_def isReady_def getNISTControls_def ex_nist_def)
  have f: "fst ?r = Inr ''job_1''"
    by (simp add: startProcessing_def Let_def sel len ai)
  then have h: "?r = (Inr ''job_1'', snd ?r)"
    by (simp add: prod_eq_iff)
  have an: "isl (ex_analyze 0 (ex_ism ! 0))" "\<not> isl (ex_analyze 1 (ex_ism ! 1))"
    by (simp_all add: ex_analyze_def)
  from batch_completeness [OF h, unfolded sel len] obtain job where
    job: "getJobStatus (snd ?r) ''job_1'' = Some job" "status job = Completed"
      "processedControls job = 2" and
    failed: "\<And>i. (\<forall>k<2. ism_id (ex_ism ! k) = i \<longrightarrow> isl (ex_analyze k (ex_ism ! k)))
        \<Longrightarrow> map_of (mappingResults (snd ?r)) i = map_of (mappingResults ex_engine) i" and
    written: "\<And>k. k < 2 \<Longrightarrow> \<not> isl (ex_analyze k (ex_ism ! k))
        \<Longrightarrow> map_of (mappingResults (snd ?r)) (ism_id (ex_ism ! k)) \<noteq> None" and
    valid: "\<And>ids. ?ids = Some ids
        \<Longrightarrow> list_all (\<lambda>i. getISMControlById (controlService ex_engine) i \<noteq> None) ids
        \<Longrightarrow> map ism_id ex_ism = ids"
    by blast
  have "\<forall>k<2. ism_id (ex_ism ! k) = ''ISM-0001'' \<longrightarrow> isl (ex_analyze k (ex_ism ! k))"
    using an len by (auto simp: less_2_cases_iff)
  from failed [OF this] have a: "map_of (mappingResults (snd ?r)) ''ISM-0001'' = None"
    by (simp add: ex_engine_def)
  from written [of 1] an len have b: "map_of (mappingResults (snd ?r)) ''ISM-0002'' \<noteq> None"
    by simp
  from valid [OF refl known] sel
  have c: "map ism_id (selectISMControls (controlService ex_engine) ?ids)
       = [''ISM-0001'', ''ISM-0002'']"
    by simp
  from f job an a b c show ?thesis by blast
qed

theorem startProcessing_preconditions_witness:
  "startProcessing ex_analyze (\<lambda>k. 2050) 9000 ''job_1'' 1000 None (ex_engine\<lparr>aiService := None\<rparr>)
     = (Inl (Error ''Ollama service not initialized''), ex_engine\<lparr>aiService := None\<rparr>)
   \<and> startProcessing ex_analyze (\<lambda>k. 2050) 9000 ''job_1'' 1000 None
       (ex_engine\<lparr>controlService := (controlService ex_engine)\<lparr>loadingStatus :=
          (loadingStatus (controlService ex_engine))\<lparr>nistControlsLoaded := False\<rparr>\<rparr>\<rparr>)
     = (Inl (Error ''Control service not ready. Please load controls first.''),
        ex_engine\<lparr>controlService := (controlService ex_engine)\<lparr>loadingStatus :=
          (loadingStatus (controlService ex_engine))\<lparr>nistControlsLoaded := False\<rparr>\<rparr>\<rparr>)
   \<and> startProcessing ex_analyze (\<lambda>k. 2050) 9000 ''job_1'' 1000 (Some [''ISM-9999'']) ex_engine
     = (Inl (Error ''No ISM controls found to process''), ex_engine)
   \<and> map ism_id (selectISMControls (controlService ex_engine) (Some [''ISM-9999'', ''ISM-0002'']))
     = [''ISM-0002'']
   \<and> fst (startProcessing ex_analyze (\<lambda>k. 2050) 9000 ''job_1'' 1000
        (Some [''ISM-9999'', ''ISM-0002'']) ex_engine) = Inr ''job_1''"
proof -
  let ?e1 = "ex_engine\<lparr>aiService := None\<rparr>"
  let ?e2 = "ex_engine\<lparr>controlService := (controlService ex_engine)\<lparr>loadingStatus :=
          (loadingStatus (controlService ex_engine))\<lparr>nistControlsLoaded := False\<rparr>\<rparr>\<rparr>"
  have ai: "aiService ex_engine \<noteq> None" "isReady (controlService ex_engine)"
    "aiService ?e2 \<noteq> None" "\<not> isReady (controlService ?e2)"
    "getNISTControls (controlService ex_engine) \<noteq> []"
    by (simp_all add: ex_engine_def isReady_def getNISTControls_def ex_nist_def)
  have find: "getISMControlById (controlService ex_engine) ''ISM-9999'' = None"
    "getISMControlById (controlService ex_engine) ''ISM-0002'' \<noteq> None"
    by (simp_all add: getISMControlById_def ex_engine_def ex_ism_def)
  have sel: "selectISMControls (controlService ex_engine) (Some [''ISM-9999'']) = []"
    by (simp add: selectISMControls_def List.map_filter_simps find)
  have c1: "startProcessing ex_analyze (\<lambda>k. 2050) 9000 ''job_1'' 1000 None ?e1
     = (Inl (Error ''Ollama service not initialized''), ?e1)"
    using startProcessing_preconditions [of ?e1 ex_analyze "\<lambda>k. 2050" 9000 "''job_1''" 1000 None]
    by simp
  have c2: "startProcessing ex_analyze (\<lambda>k. 2050) 9000 ''job_1'' 1000 None ?e2
     = (Inl (Error ''Control service not ready. Please load controls first.''), ?e2)"
    using startProcessing_preconditions [of ?e2 ex_analyze "\<lambda>k. 2050" 9000 "''job_1''" 1000 None]
      ai(3,4) by blast
  have c3: "startProcessing ex_analyze (\<lambda>k. 2050) 9000 ''job_1'' 1000 (Some [''ISM-9999'']) ex_engine
     = (Inl (Error ''No ISM controls found to process''), ex_engine)"
    using startProcessing_preconditions [of ex_engine ex_analyze "\<lambda>k. 2050" 9000 "''job_1''" 1000
        "Some [''ISM-9999'']"] ai(1,2) sel by blast
  have ids: "map ism_id (selectISMControls (controlService ex_engine) (Some [''ISM-9999'', ''ISM-0002'']))
     = [''ISM-0002'']"
    using startProcessing_preconditions [of ex_engine ex_analyze "\<lambda>k. 2050" 9000 "''job_1''" 1000
        "Some [''ISM-9999'', ''ISM-0002'']"] find by simp
  then have "selectISMControls (controlService ex_engine) (Some [''ISM-9999'', ''ISM-0002'']) \<noteq> []"
    by auto
  then have c4: "fst (startProcessing ex_analyze (\<lambda>k. 2050) 9000 ''job_1'' 1000
        (Some [''ISM-9999'', ''ISM-0002'']) ex_engine) = Inr ''job_1''"
    using startProcessing_preconditions [of ex_engine ex_analyze "\<lambda>k. 2050" 9000 "''job_1''" 1000
        "Some [''ISM-9999'', ''ISM-0002'']"] ai(1,2,5) by blast
  from c1 c2 c3 ids c4 show ?thesis by blast
qed

section \<open>Entries, overrides and the catalog\<close>

text \<open>
  Claim C1, as stated, fails. The engine starts with no entry; one job analyses
  \<open>ISM-0001\<close>, the response names \<open>AC-1\<close> and \<open>ac-1\<close>, both candidates are
  normalised to \<open>AC-1\<close>, and the entry written has two correspondences for
  \<open>AC-1\<close>.
\<close>

theorem duplicate_targets_counterexample:
  "targetsDistinct ex_engine
   \<and> map_option targetIds (map_of (mappingResults ex_engine_duplicate) ''ISM-0001'')
       = Some [''AC-1'', ''AC-1'']
   \<and> \<not> targetsDistinct ex_engine_duplicate"
  by code_simp

lemma set_AList_update:
  "(k', v') \<in> set (AList.update k v al) \<Longrightarrow> (k', v') = (k, v) \<or> (k', v') \<in> set al"
  by (induction al) (auto split: if_splits)

lemma targetsDistinct_update:
  assumes "targetsDistinct eng" "distinct (targetIds r)"
  shows "targetsDistinct (eng\<lparr>mappingResults := AList.update k r (mappingResults eng)\<rparr>)"
  using assms
  by (auto simp: targetsDistinct_def list_all_iff dest!: set_AList_update)

lemma targetsDistinct_lookup:
  assumes "targetsDistinct eng" "map_of (mappingResults eng) k = Some r"
  shows "distinct (targetIds r)"
  using assms
  by (auto simp: targetsDistinct_def list_all_iff dest!: map_of_SomeD)

lemma targetIds_update_first:
  assumes "\<And>m. nistControlId (f m) = nistControlId m"
  shows "map nistControlId (update_first p f ms) = map nistControlId ms"
  by (induction ms) (simp_all add: assms)

lemma find_None_target:
  "find (\<lambda>m. nistControlId m = nid) ms = None \<Longrightarrow> nid \<notin> set (map nistControlId ms)"
  by (auto simp: find_None_iff)

lemma applyManualOverride_targetsDistinct:
  assumes "targetsDistinct eng"
  shows "targetsDistinct (applyManualOverride now ismId nid conf reas eng)"
proof (cases "map_of (mappingResults eng) ismId")
  case None
  then show ?thesis
    using assms
    by (simp add: applyManualOverride_def Let_def targetsDistinct_update targetIds_def)
next
  case (Some existing)
  from targetsDistinct_lookup [OF assms Some]
  have d: "distinct (map nistControlId (nistMappings existing))"
    by (simp add: targetIds_def)
  show ?thesis
  proof (cases "find (\<lambda>m. nistControlId m = nid) (nistMappings existing)")
    case None
    with Some d show ?thesis
      using assms find_None_target [OF None]
      by (simp add: applyManualOverride_def Let_def targetsDistinct_update targetIds_def)
  next
    case (Some m)
    with \<open>map_of (mappingResults eng) ismId = Some existing\<close> d show ?thesis
      using assms
      by (simp add: applyManualOverride_def Let_def targetsDistinct_update targetIds_def
          targetIds_update_first)
  qed
qed

lemma removeManualOverride_targetsDistinct:
  assumes "targetsDistinct eng"
  shows "targetsDistinct (removeManualOverride ismId nid eng)"
proof (cases "map_of (mappingResults eng) ismId")
  case None
  then show ?thesis using assms by (simp add: removeManualOverride_def)
next
  case (Some r)
  from targetsDistinct_lookup [OF assms Some]
  have "distinct (map nistControlId (nistMappings r))"
    by (simp add: targetIds_def)
  then have "distinct (map nistControlId
      (filter (\<lambda>m. \<not> (nistControlId m = nid \<and> isManualOverride m)) (nistMappings r)))"
    by (rule distinct_map_filter)
  with Some show ?thesis
    using assms by (simp add: removeManualOverride_def targetsDistinct_update targetIds_def)
qed

lemma onProgress_targetsDistinct:
  assumes "targetsDistinct eng" "distinct (map nistControlId (mappings res))"
  shows "targetsDistinct (snd (onProgress clock completed totalN (Some (controlId, res)) (job, eng)))"
proof -
  have "targetsDistinct (eng\<lparr>mappingResults := AList.update controlId r (mappingResults eng)\<rparr>)"
    if "targetIds r = map nistControlId (mappings res)" for r
    using assms that by (simp add: targetsDistinct_update)
  then show ?thesis
    by (simp add: onProgress_def Let_def targetsDistinct_def targetIds_def comp_def)
qed

text \<open>
  Claim C1, amended. From a state where no entry has two correspondences for the
  same target identifier, any sequence of \<open>applyManualOverride\<close>,
  \<open>removeManualOverride\<close>, \<open>reset\<close> and analysis writes leads to such a state
  again, provided the candidates of each analysis written have pairwise distinct
  target identifiers.
\<close>

theorem overrides_keep_targets_distinct:
  assumes "targetsDistinct eng" "list_all candidatesDistinct calls"
  shows "targetsDistinct (fold run_call calls eng)"
  using assms
proof (induction calls arbitrary: eng)
  case Nil
  then show ?case by simp
next
  case (Cons call calls)
  have "targetsDistinct (run_call call eng)"
  proof (cases call)
    case (Override now ismId nid conf reas)
    with Cons.prems show ?thesis by (simp add: applyManualOverride_targetsDistinct)
  next
    case (RemoveOverride ismId nid)
    with Cons.prems show ?thesis by (simp add: removeManualOverride_targetsDistinct)
  next
    case (AnalysisWrite clock completed totalN job controlId res)
    with Cons.prems show ?thesis by (simp add: onProgress_targetsDistinct)
  next
    case Reset
    then show ?thesis by (simp add: reset_def targetsDistinct_def)
  qed
  with Cons show ?case by simp
qed

theorem overrides_keep_targets_distinct_witness:
  "targetsDistinct ex_engine \<and> list_all candidatesDistinct ex_calls
   \<and> targetsDistinct (fold run_call ex_calls ex_engine)
   \<and> map (\<lambda>kr. (fst kr, targetIds (snd kr))) (mappingResults (fold run_call ex_calls ex_engine))
       = [(''ISM-0001'', [''ac-1'']), (''ISM-0002'', [''AC-1'', ''AC-2''])]"
proof -
  have h1: "targetsDistinct ex_engine" by code_simp
  have h2: "list_all candidatesDistinct ex_calls" by code_simp
  have h3: "map (\<lambda>kr. (fst kr, targetIds (snd kr))) (mappingResults (fold run_call ex_calls ex_engine))
       = [(''ISM-0001'', [''ac-1'']), (''ISM-0002'', [''AC-1'', ''AC-2''])]"
    by code_simp
  from overrides_keep_targets_distinct [OF h1 h2] h1 h2 h3 show ?thesis by blast
qed

text \<open>
  Claim C8, as stated, fails. After the job above the entry of \<open>ISM-0001\<close> has
  two correspondences for \<open>AC-1\<close>; two calls of \<open>applyManualOverride\<close> with the
  same arguments leave two of them, not one.
\<close>

theorem override_twice_counterexample:
  "countTargetIn ex_engine_duplicate ''ISM-0001'' ''AC-1'' = 2
   \<and> countTargetIn
        (applyManualOverride 3100 ''ISM-0001'' ''AC-1'' 95 ''Manual review''
          (applyManualOverride 3000 ''ISM-0001'' ''AC-1'' 95 ''Manual review'' ex_engine_duplicate))
        ''ISM-0001'' ''AC-1'' = 2"
  by code_simp

lemma update_first_filter_length:
  assumes "\<And>x. p x \<Longrightarrow> p (f x)"
  shows "length (filter p (update_first p f xs)) = length (filter p xs)"
  by (induction xs) (simp_all add: assms)

lemma update_first_idem:
  assumes "\<And>x. p x \<Longrightarrow> p (f x)" "\<And>x. f (f x) = f x"
  shows "update_first p f (update_first p f xs) = update_first p f xs"
  by (induction xs) (simp_all add: assms)

lemma find_update_first:
  assumes "\<And>x. p x \<Longrightarrow> p (f x)"
  shows "find p (update_first p f xs) = map_option f (find p xs)"
  by (induction xs) (simp_all add: assms)

lemma update_first_at:
  assumes "j < length xs" "p (xs ! j)" "\<forall>i<j. \<not> p (xs ! i)"
  shows "update_first p f xs = xs[j := f (xs ! j)]"
  using assms
proof (induction xs arbitrary: j)
  case Nil
  then show ?case by simp
next
  case (Cons x xs)
  show ?case
  proof (cases j)
    case 0
    with Cons.prems show ?thesis by simp
  next
    case (Suc j')
    with Cons.prems have "\<not> p x" by auto
    moreover from Suc Cons.prems have "\<forall>i<j'. \<not> p (xs ! i)" by auto
    ultimately show ?thesis
      using Cons.IH [of j'] Cons.prems Suc by simp
  qed
qed

lemma find_Some_count:
  "find p xs = Some x \<Longrightarrow> 1 \<le> length (filter p xs)"
  by (induction xs) (auto split: if_splits)

lemma find_None_count:
  "find p xs = None \<Longrightarrow> length (filter p xs) = 0"
  by (induction xs) (auto split: if_splits)

lemma find_append_None:
  "find p xs = None \<Longrightarrow> find p (xs @ ys) = find p ys"
  by (induction xs) (auto split: if_splits)

lemma update_first_append_None:
  "find p xs = None \<Longrightarrow> update_first p f (xs @ ys) = xs @ update_first p f ys"
  by (induction xs) (auto split: if_splits)

lemma getNISTControlMetadata_mappingResults:
  "getNISTControlMetadata (eng\<lparr>mappingResults := mr\<rparr>) nid = getNISTControlMetadata eng nid"
  by (simp add: getNISTControlMetadata_def)

lemma applyManualOverride_idem:
  "applyManualOverride now' ismId nid conf reas (applyManualOverride now ismId nid conf reas eng)
     = applyManualOverride now ismId nid conf reas eng"
proof (cases "map_of (mappingResults eng) ismId")
  case None
  then show ?thesis
    by (simp add: applyManualOverride_def Let_def update_conv'
        getNISTControlMetadata_mappingResults)
next
  case (Some existing)
  show ?thesis
  proof (cases "find (\<lambda>m. nistControlId m = nid) (nistMappings existing)")
    case None
    with Some show ?thesis
      by (simp add: applyManualOverride_def Let_def update_conv'
          getNISTControlMetadata_mappingResults find_append_None update_first_append_None)
  next
    case (Some m)
    with \<open>map_of (mappingResults eng) ismId = Some existing\<close> show ?thesis
      by (simp add: applyManualOverride_def Let_def update_conv'
          getNISTControlMetadata_mappingResults find_update_first update_first_idem)
  qed
qed

lemma applyManualOverride_count:
  "countTargetIn (applyManualOverride now ismId nid conf reas eng) ismId nid
     = max 1 (countTargetIn eng ismId nid)"
proof (cases "map_of (mappingResults eng) ismId")
  case None
  then show ?thesis
    by (simp add: applyManualOverride_def Let_def update_conv' countTargetIn_def countTarget_def)
next
  case (Some existing)
  show ?thesis
  proof (cases "find (\<lambda>m. nistControlId m = nid) (nistMappings existing)")
    case None
    with Some show ?thesis
      using find_None_count [OF None]
      by (simp add: applyManualOverride_def Let_def update_conv' countTargetIn_def countTarget_def)
  next
    case (Some m)
    with \<open>map_of (mappingResults eng) ismId = Some existing\<close> show ?thesis
      using find_Some_count [OF Some]
      by (simp add: applyManualOverride_def Let_def update_conv' countTargetIn_def countTarget_def
          update_first_filter_length)
  qed
qed

lemma applyManualOverride_in_place:
  assumes "map_of (mappingResults eng) ismId = Some r0" "j < length (nistMappings r0)"
    "nistControlId (nistMappings r0 ! j) = nid" "\<forall>i<j. nistControlId (nistMappings r0 ! i) \<noteq> nid"
  shows "map_of (mappingResults (applyManualOverride now ismId nid conf reas eng)) ismId =
    Some (r0\<lparr>nistMappings := (nistMappings r0)
      [j := (nistMappings r0 ! j)\<lparr>confidence := conf, reasoning := JString reas,
              isManualOverride := True,
              nistTitle := fst (getNISTControlMetadata eng nid),
              nistDescription := snd (getNISTControlMetadata eng nid)\<rparr>]\<rparr>)"
proof -
  from assms(2) have "nistMappings r0 ! j \<in> set (nistMappings r0)"
    by (rule nth_mem)
  with assms(3) have "find (\<lambda>m. nistControlId m = nid) (nistMappings r0) \<noteq> None"
    by (auto simp: find_None_iff)
  then obtain m where "find (\<lambda>m. nistControlId m = nid) (nistMappings r0) = Some m"
    by blast
  with assms show ?thesis
    by (simp add: applyManualOverride_def Let_def update_conv'
        update_first_at [where p = "\<lambda>m. nistControlId m = nid" and j = j])
qed

text \<open>
  Claim C8, amended. A second call of \<open>applyManualOverride\<close> with the same
  arguments leaves the engine as the first call left it. A call leaves the entry
  with as many correspondences for the target as before, and with one when there
  was none (or no entry); so two calls leave exactly one when the entry had at
  most one before. When the entry has a correspondence for the target, the call
  changes the first such correspondence where it stands (confidence, reasoning,
  override flag, and the title and description looked up again) and nothing else
  of the entry.
\<close>

theorem override_idempotent_upsert:
  "applyManualOverride now' ismId nid conf reas (applyManualOverride now ismId nid conf reas eng)
     = applyManualOverride now ismId nid conf reas eng
   \<and> countTargetIn (applyManualOverride now ismId nid conf reas eng) ismId nid
       = max 1 (countTargetIn eng ismId nid)
   \<and> (countTargetIn eng ismId nid \<le> 1 \<longrightarrow>
        countTargetIn (applyManualOverride now' ismId nid conf reas
          (applyManualOverride now ismId nid conf reas eng)) ismId nid = 1)
   \<and> (\<forall>r0 j. map_of (mappingResults eng) ismId = Some r0 \<and> j < length (nistMappings r0)
          \<and> nistControlId (nistMappings r0 ! j) = nid
          \<and> (\<forall>i<j. nistControlId (nistMappings r0 ! i) \<noteq> nid) \<longrightarrow>
        map_of (mappingResults (applyManualOverride now ismId nid conf reas eng)) ismId =
          Some (r0\<lparr>nistMappings := (nistMappings r0)
            [j := (nistMappings r0 ! j)\<lparr>confidence := conf, reasoning := JString reas,
                    isManualOverride := True,
                    nistTitle := fst (getNISTControlMetadata eng nid),
                    nistDescription := snd (getNISTControlMetadata eng nid)\<rparr>]\<rparr>))"
proof -
  have twice: "countTargetIn (applyManualOverride now' ismId nid conf reas
          (applyManualOverride now ismId nid conf reas eng)) ismId nid = 1"
    if "countTargetIn eng ismId nid \<le> 1"
    using that by (simp add: applyManualOverride_idem applyManualOverride_count)
  show ?thesis
  proof (intro conjI allI impI)
    show "applyManualOverride now' ismId nid conf reas
        (applyManualOverride now ismId nid conf reas eng)
      = applyManualOverride now ismId nid conf reas eng"
      by (rule applyManualOverride_idem)
    show "countTargetIn (applyManualOverride now ismId nid conf reas eng) ismId nid
       = max 1 (countTargetIn eng ismId nid)"
      by (rule applyManualOverride_count)
    show "countTargetIn (applyManualOverride now' ismId nid conf reas
          (applyManualOverride now ismId nid conf reas eng)) ismId nid = 1"
      if "countTargetIn eng ismId nid \<le> 1"
      by (rule twice [OF that])
  next
    fix r0 j
    assume "map_of (mappingResults eng) ismId = Some r0 \<and> j < length (nistMappings r0)
          \<and> nistControlId (nistMappings r0 ! j) = nid
          \<and> (\<forall>i<j. nistControlId (nistMappings r0 ! i) \<noteq> nid)"
    then show "map_of (mappingResults (applyManualOverride now ismId nid conf reas eng)) ismId =
          Some (r0\<lparr>nistMappings := (nistMappings r0)
            [j := (nistMappings r0 ! j)\<lparr>confidence := conf, reasoning := JString reas,
                    isManualOverride := True,
                    nistTitle := fst (getNISTControlMetadata eng nid),
                    nistDescription := snd (getNISTControlMetadata eng nid)\<rparr>]\<rparr>)"
      using applyManualOverride_in_place by blast
  qed
qed

theorem override_idempotent_upsert_witness:
  "countTargetIn ex_engine ''ISM-0001'' ''AC-1'' \<le> 1
   \<and> countTargetIn
        (applyManualOverride 3100 ''ISM-0001'' ''AC-1'' 95 ''Manual review''
          (applyManualOverride 3000 ''ISM-0001'' ''AC-1'' 95 ''Manual review'' ex_engine))
        ''ISM-0001'' ''AC-1'' = 1
   \<and> applyManualOverride 3100 ''ISM-0001'' ''AC-1'' 95 ''Manual review''
          (applyManualOverride 3000 ''ISM-0001'' ''AC-1'' 95 ''Manual review'' ex_engine)
       = applyManualOverride 3000 ''ISM-0001'' ''AC-1'' 95 ''Manual review'' ex_engine
   \<and> map_of (mappingResults (applyManualOverride 3000 ''ISM-0001'' ''AC-1'' 40 ''Too weak''
          (ex_engine\<lparr>mappingResults := [(''ISM-0001'', ex_entry)]\<rparr>))) ''ISM-0001''
       = Some (ex_entry\<lparr>nistMappings :=
           [\<lparr>nistControlId = ''AC-1'', confidence = 40, reasoning = JString ''Too weak'',
             nistTitle = ''Policy and Procedures'',
             nistDescription = ''Develop an access control policy'',
             isManualOverride = True\<rparr>]\<rparr>)"
proof -
  let ?e = "ex_engine\<lparr>mappingResults := [(''ISM-0001'', ex_entry)]\<rparr>"
  note T1 = override_idempotent_upsert
    [of 3100 "''ISM-0001''" "''AC-1''" 95 "''Manual review''" 3000 ex_engine]
  note T2 = override_idempotent_upsert
    [of 3100 "''ISM-0001''" "''AC-1''" 40 "''Too weak''" 3000 ?e]
  have c: "countTargetIn ex_engine ''ISM-0001'' ''AC-1'' \<le> 1"
    by (simp add: countTargetIn_def ex_engine_def)
  have pre: "map_of (mappingResults ?e) ''ISM-0001'' = Some ex_entry \<and> 0 < length (nistMappings ex_entry)
      \<and> nistControlId (nistMappings ex_entry ! 0) = ''AC-1''
      \<and> (\<forall>i<0. nistControlId (nistMappings ex_entry ! i) \<noteq> ''AC-1'')"
    by (simp add: ex_entry_def)
  have md: "getNISTControlMetadata ex_engine ''AC-1'' =
      (''Policy and Procedures'', ''Develop an access control policy'')"
    by code_simp
  from T2 pre have "map_of (mappingResults (applyManualOverride 3000 ''ISM-0001'' ''AC-1'' 40
        ''Too weak'' ?e)) ''ISM-0001'' =
      Some (ex_entry\<lparr>nistMappings := (nistMappings ex_entry)
            [0 := (nistMappings ex_entry ! 0)\<lparr>confidence := 40, reasoning := JString ''Too weak'',
                    isManualOverride := True,
                    nistTitle := fst (getNISTControlMetadata ?e ''AC-1''),
                    nistDescription := snd (getNISTControlMetadata ?e ''AC-1'')\<rparr>]\<rparr>)"
    by blast
  then have inplace: "map_of (mappingResults (applyManualOverride 3000 ''ISM-0001'' ''AC-1'' 40
        ''Too weak'' ?e)) ''ISM-0001''
       = Some (ex_entry\<lparr>nistMappings :=
           [\<lparr>nistControlId = ''AC-1'', confidence = 40, reasoning = JString ''Too weak'',
             nistTitle = ''Policy and Procedures'',
             nistDescription = ''Develop an access control policy'',
             isManualOverride = True\<rparr>]\<rparr>)"
    by (simp add: getNISTControlMetadata_mappingResults md ex_entry_def)
  from T1 c inplace show ?thesis by blast
qed

text \<open>
  Claim C4, as stated, fails. A job writes an entry for \<open>ISM-0002\<close> that maps to
  \<open>AC-1\<close>; the control service then loads a catalog with another title and
  description for that control. Both read operations still return the title and
  description of the catalog that was current when the entry was written.
\<close>

theorem stale_title_counterexample:
  "getNISTControlMetadata ex_engine_reloaded ''AC-1''
     = (''Access Control Policy and Procedures'',
        ''Develop, document and disseminate an access control policy'')
   \<and> map_option (\<lambda>r. map (\<lambda>m. (nistControlId m, nistTitle m, nistDescription m)) (nistMappings r))
        (getMappingResult ex_engine_reloaded ''ISM-0002'')
     = Some [(''AC-1'', ''Policy and Procedures'', ''Develop an access control policy'')]
   \<and> map (\<lambda>r. map (\<lambda>m. (nistControlId m, nistTitle m, nistDescription m)) (nistMappings r))
        (getAllMappingResults ex_engine_reloaded)
     = [[(''AC-1'', ''Policy and Procedures'', ''Develop an access control policy'')]]"
  by code_simp

lemma getNISTControlMetadata_nonempty:
  "fst (getNISTControlMetadata eng nid) \<noteq> [] \<and> snd (getNISTControlMetadata eng nid) \<noteq> []"
  by (simp add: getNISTControlMetadata_def or_default_def Let_def split: option.splits)

lemma enrichMapping_stored:
  "nistTitle m \<noteq> [] \<and> nistDescription m \<noteq> [] \<Longrightarrow> enrichMapping eng m = m"
  by (simp add: enrichMapping_def)

lemma metadataStored_lookup:
  assumes "metadataStored eng" "map_of (mappingResults eng) k = Some r"
  shows "list_all (\<lambda>m. nistTitle m \<noteq> [] \<and> nistDescription m \<noteq> []) (nistMappings r)"
  using assms by (auto simp: metadataStored_def list_all_iff dest!: map_of_SomeD)

lemma metadataStored_update:
  assumes "metadataStored eng"
    "list_all (\<lambda>m. nistTitle m \<noteq> [] \<and> nistDescription m \<noteq> []) (nistMappings r)"
  shows "metadataStored (eng\<lparr>mappingResults := AList.update k r (mappingResults eng)\<rparr>)"
  using assms
  by (auto simp: metadataStored_def list_all_iff dest!: set_AList_update)

lemma set_update_first:
  "x \<in> set (update_first p f xs) \<Longrightarrow> x \<in> set xs \<or> (\<exists>y\<in>set xs. x = f y)"
  by (induction xs) (auto split: if_splits)

lemma metadataStored_read:
  assumes "metadataStored eng"
  shows "getMappingResult (eng\<lparr>controlService := cs'\<rparr>) ismId = map_of (mappingResults eng) ismId"
    "getAllMappingResults (eng\<lparr>controlService := cs'\<rparr>) = map snd (mappingResults eng)"
proof -
  have same: "map (enrichMapping e) (nistMappings r) = nistMappings r"
    if "list_all (\<lambda>m. nistTitle m \<noteq> [] \<and> nistDescription m \<noteq> []) (nistMappings r)" for e r
    using that by (auto simp: list_all_iff enrichMapping_stored intro: map_idI)
  show "getMappingResult (eng\<lparr>controlService := cs'\<rparr>) ismId = map_of (mappingResults eng) ismId"
    using metadataStored_lookup [OF assms] 
    by (auto simp: getMappingResult_def same split: option.splits)
  have all: "map (\<lambda>result. result\<lparr>nistMappings := map (enrichMapping e) (nistMappings result)\<rparr>) rs
      = rs"
    if "\<forall>r\<in>set rs. list_all (\<lambda>m. nistTitle m \<noteq> [] \<and> nistDescription m \<noteq> []) (nistMappings r)"
    for rs e
    using that by (induction rs) (simp_all add: same)
  have "\<forall>r\<in>set (map snd (mappingResults eng)).
      list_all (\<lambda>m. nistTitle m \<noteq> [] \<and> nistDescription m \<noteq> []) (nistMappings r)"
    using assms by (simp add: metadataStored_def list_all_iff)
  from all [OF this]
  show "getAllMappingResults (eng\<lparr>controlService := cs'\<rparr>) = map snd (mappingResults eng)"
    by (simp add: getAllMappingResults_def)
qed

lemma applyManualOverride_metadataStored:
  assumes "metadataStored eng"
  shows "metadataStored (applyManualOverride now ismId nid conf reas eng)"
proof (cases "map_of (mappingResults eng) ismId")
  case None
  then show ?thesis
    using assms getNISTControlMetadata_nonempty [of eng nid]
    by (simp add: applyManualOverride_def Let_def metadataStored_update)
next
  case (Some existing)
  note ex = metadataStored_lookup [OF assms Some]
  show ?thesis
  proof (cases "find (\<lambda>m. nistControlId m = nid) (nistMappings existing)")
    case None
    with Some ex show ?thesis
      using assms getNISTControlMetadata_nonempty [of eng nid]
      by (simp add: applyManualOverride_def Let_def metadataStored_update)
  next
    case (Some m)
    have "list_all (\<lambda>m. nistTitle m \<noteq> [] \<and> nistDescription m \<noteq> [])
      (update_first (\<lambda>m. nistControlId m = nid)
         (\<lambda>m. m\<lparr>confidence := conf, reasoning := JString reas, isManualOverride := True,
                 nistTitle := fst (getNISTControlMetadata eng nid),
                 nistDescription := snd (getNISTControlMetadata eng nid)\<rparr>)
         (nistMappings existing))"
      using ex getNISTControlMetadata_nonempty [of eng nid]
      by (auto simp: list_all_iff dest!: set_update_first)
    with Some \<open>map_of (mappingResults eng) ismId = Some existing\<close> show ?thesis
      using assms by (simp add: applyManualOverride_def Let_def metadataStored_update)
  qed
qed

lemma onProgress_metadataStored:
  assumes "metadataStored eng"
  shows "metadataStored (snd (onProgress clock completed totalN (Some (controlId, res)) (job, eng)))"
proof -
  have q: "metadataStored (e\<lparr>resultsQueue := qs\<rparr>) = metadataStored e" for e qs
    by (simp add: metadataStored_def)
  show ?thesis
    by (simp add: onProgress_def Let_def q metadataStored_update [OF assms] list_all_iff
        getNISTControlMetadata_nonempty)
qed

lemma getNISTControlMetadata_lookup:
  "getNISTControlMetadata eng nid =
     (case find (\<lambda>control. toLowerCase (nist_id control) = toLowerCase nid)
             (nistControls (controlService eng)) of
        None \<Rightarrow> (''Unknown'', ''Description not available'')
      | Some c \<Rightarrow>
          (if nist_title c = [] then ''Unknown'' else nist_title c,
           if nist_description c = [] then ''Description not available''
           else nist_description c))"
  by (simp add: getNISTControlMetadata_def getNISTControls_def or_default_def Let_def
      split: option.splits)

lemma enrichMapping_cases:
  "(nistTitle mp \<noteq> [] \<and> nistDescription mp \<noteq> [] \<longrightarrow> enrichMapping eng mp = mp)
   \<and> (nistTitle mp = [] \<or> nistDescription mp = [] \<longrightarrow>
        enrichMapping eng mp =
          mp\<lparr>nistTitle := fst (getNISTControlMetadata eng (nistControlId mp)),
               nistDescription := snd (getNISTControlMetadata eng (nistControlId mp))\<rparr>)"
  by (auto simp: enrichMapping_def Let_def)

lemma onProgress_stores:
  "map_of (mappingResults (snd (onProgress clock completed totalN (Some (controlId, res))
       (job, eng)))) controlId =
     Some \<lparr>ismControlId = controlId,
           nistMappings =
             map (\<lambda>mapping.
                    \<lparr>nistControlId = nistControlId mapping, confidence = confidence mapping,
                     reasoning = reasoning mapping,
                     nistTitle = fst (getNISTControlMetadata eng (nistControlId mapping)),
                     nistDescription = snd (getNISTControlMetadata eng (nistControlId mapping)),
                     isManualOverride = False\<rparr>)
               (mappings res),
           processingTimestamp = ar_timestamp res, aiModel = ar_model res,
           processingTime = ar_processingTime res\<rparr>"
  by (simp add: onProgress_def Let_def update_conv')

lemma onProgress_read_after_reload:
  "getMappingResult
     ((snd (onProgress clock completed totalN (Some (controlId, res)) (job, eng)))
        \<lparr>controlService := cs'\<rparr>) controlId =
     Some \<lparr>ismControlId = controlId,
           nistMappings =
             map (\<lambda>mapping.
                    \<lparr>nistControlId = nistControlId mapping, confidence = confidence mapping,
                     reasoning = reasoning mapping,
                     nistTitle = fst (getNISTControlMetadata eng (nistControlId mapping)),
                     nistDescription = snd (getNISTControlMetadata eng (nistControlId mapping)),
                     isManualOverride = False\<rparr>)
               (mappings res),
           processingTimestamp = ar_timestamp res, aiModel = ar_model res,
           processingTime = ar_processingTime res\<rparr>"
proof -
  have "map_of (mappingResults ((snd (onProgress clock completed totalN (Some (controlId, res))
      (job, eng)))\<lparr>controlService := cs'\<rparr>)) controlId =
    map_of (mappingResults (snd (onProgress clock completed totalN (Some (controlId, res))
      (job, eng)))) controlId"
    by simp
  then show ?thesis
    by (simp add: getMappingResult_def onProgress_stores enrichMapping_def comp_def
        getNISTControlMetadata_nonempty)
qed

lemma applyManualOverride_stores:
  "\<exists>r m. map_of (mappingResults (applyManualOverride now ismId nid conf reas eng)) ismId = Some r
     \<and> find (\<lambda>m. nistControlId m = nid) (nistMappings r) = Some m
     \<and> nistTitle m = fst (getNISTControlMetadata eng nid)
     \<and> nistDescription m = snd (getNISTControlMetadata eng nid)"
proof (cases "map_of (mappingResults eng) ismId")
  case None
  then show ?thesis
    by (simp add: applyManualOverride_def Let_def update_conv')
next
  case (Some existing)
  show ?thesis
  proof (cases "find (\<lambda>m. nistControlId m = nid) (nistMappings existing)")
    case None
    with Some show ?thesis
      by (simp add: applyManualOverride_def Let_def update_conv' find_append_None)
  next
    case (Some m0)
    with \<open>map_of (mappingResults eng) ismId = Some existing\<close> show ?thesis
      by (simp add: applyManualOverride_def Let_def update_conv' find_update_first)
  qed
qed

text \<open>
  Claim C4, amended. The title and description that the read operations return
  are resolved when the entry is written. The analysis write stores, for every
  candidate, the title and description that \<open>getNISTControlMetadata\<close> finds in
  the control service at the time of the write, and \<open>applyManualOverride\<close> stores
  them for the correspondence it writes; that lookup gives the title and
  description of the control with the same identifier up to case, or the
  placeholders, and never an empty text. A read returns a correspondence whose
  stored title and description are not empty as it is stored, and looks the
  current catalog up only for one whose title or description is empty. So, when
  every stored correspondence has both, the read operations return the entries as
  stored whatever the control service now holds: after a reload, a read of an
  entry just written still returns the text of the catalog of the write.
\<close>

theorem titles_resolved_at_write:
  assumes "metadataStored eng"
  shows "getMappingResult (eng\<lparr>controlService := cs'\<rparr>) ismId = map_of (mappingResults eng) ismId
       \<and> getAllMappingResults (eng\<lparr>controlService := cs'\<rparr>) = map snd (mappingResults eng)
       \<and> metadataStored (applyManualOverride now ismId nid conf reas eng)
       \<and> metadataStored
           (snd (onProgress clock completed totalN (Some (controlId, res)) (job, eng)))
       \<and> map_of (mappingResults (snd (onProgress clock completed totalN (Some (controlId, res))
             (job, eng)))) controlId =
           Some \<lparr>ismControlId = controlId,
                 nistMappings =
                   map (\<lambda>mapping.
                          \<lparr>nistControlId = nistControlId mapping, confidence = confidence mapping,
                           reasoning = reasoning mapping,
                           nistTitle = fst (getNISTControlMetadata eng (nistControlId mapping)),
                           nistDescription =
                             snd (getNISTControlMetadata eng (nistControlId mapping)),
                           isManualOverride = False\<rparr>)
                     (mappings res),
                 processingTimestamp = ar_timestamp res, aiModel = ar_model res,
                 processingTime = ar_processingTime res\<rparr>
       \<and> getMappingResult
             ((snd (onProgress clock completed totalN (Some (controlId, res)) (job, eng)))
                \<lparr>controlService := cs'\<rparr>) controlId =
           map_of (mappingResults (snd (onProgress clock completed totalN (Some (controlId, res))
             (job, eng)))) controlId
       \<and> (\<exists>r m. map_of (mappingResults (applyManualOverride now ismId nid conf reas eng)) ismId
                   = Some r
              \<and> find (\<lambda>m. nistControlId m = nid) (nistMappings r) = Some m
              \<and> nistTitle m = fst (getNISTControlMetadata eng nid)
              \<and> nistDescription m = snd (getNISTControlMetadata eng nid)
              \<and> getMappingResult
                   ((applyManualOverride now ismId nid conf reas eng)\<lparr>controlService := cs'\<rparr>)
                   ismId = Some r)
       \<and> getNISTControlMetadata eng nid =
           (case find (\<lambda>control. toLowerCase (nist_id control) = toLowerCase nid)
                   (nistControls (controlService eng)) of
              None \<Rightarrow> (''Unknown'', ''Description not available'')
            | Some c \<Rightarrow>
                (if nist_title c = [] then ''Unknown'' else nist_title c,
                 if nist_description c = [] then ''Description not available''
                 else nist_description c))
       \<and> (nistTitle mp \<noteq> [] \<and> nistDescription mp \<noteq> [] \<longrightarrow> enrichMapping eng mp = mp)
       \<and> (nistTitle mp = [] \<or> nistDescription mp = [] \<longrightarrow>
            enrichMapping eng mp =
              mp\<lparr>nistTitle := fst (getNISTControlMetadata eng (nistControlId mp)),
                   nistDescription := snd (getNISTControlMetadata eng (nistControlId mp))\<rparr>)"
proof -
  have ov: "metadataStored (applyManualOverride now ismId nid conf reas eng)"
    by (rule applyManualOverride_metadataStored [OF assms])
  from applyManualOverride_stores [of now ismId nid conf reas eng] obtain r m where
    rm: "map_of (mappingResults (applyManualOverride now ismId nid conf reas eng)) ismId = Some r"
      "find (\<lambda>m. nistControlId m = nid) (nistMappings r) = Some m"
      "nistTitle m = fst (getNISTControlMetadata eng nid)"
      "nistDescription m = snd (getNISTControlMetadata eng nid)"
    by blast
  from metadataStored_read(1) [OF ov] rm(1)
  have "getMappingResult
      ((applyManualOverride now ismId nid conf reas eng)\<lparr>controlService := cs'\<rparr>) ismId = Some r"
    by simp
  with rm have override: "\<exists>r m. map_of (mappingResults (applyManualOverride now ismId nid conf reas eng)) ismId
                   = Some r
              \<and> find (\<lambda>m. nistControlId m = nid) (nistMappings r) = Some m
              \<and> nistTitle m = fst (getNISTControlMetadata eng nid)
              \<and> nistDescription m = snd (getNISTControlMetadata eng nid)
              \<and> getMappingResult
                   ((applyManualOverride now ismId nid conf reas eng)\<lparr>controlService := cs'\<rparr>)
                   ismId = Some r"
    by blast
  have reload: "getMappingResult
             ((snd (onProgress clock completed totalN (Some (controlId, res)) (job, eng)))
                \<lparr>controlService := cs'\<rparr>) controlId =
           map_of (mappingResults (snd (onProgress clock completed totalN (Some (controlId, res))
             (job, eng)))) controlId"
    by (simp only: onProgress_read_after_reload onProgress_stores)
  show ?thesis
    by (intro conjI metadataStored_read [OF assms] ov onProgress_metadataStored [OF assms]
        onProgress_stores reload override getNISTControlMetadata_lookup
        enrichMapping_cases [THEN conjunct1] enrichMapping_cases [THEN conjunct2])
qed


theorem titles_resolved_at_write_witness:
  "metadataStored ex_engine_processed
   \<and> getMappingResult ex_engine_reloaded ''ISM-0002''
       = map_of (mappingResults ex_engine_processed) ''ISM-0002''
   \<and> getAllMappingResults ex_engine_reloaded = map snd (mappingResults ex_engine_processed)
   \<and> getNISTControlMetadata ex_engine_processed ''AC-1''
       = (''Policy and Procedures'', ''Develop an access control policy'')
   \<and> map_option (\<lambda>r. map (\<lambda>m. (nistTitle m, nistDescription m)) (nistMappings r))
        (getMappingResult
           ((snd (onProgress (\<lambda>k. 2050) 1 1 (Some (''ISM-0001'', ex_analysis))
                (ex_job, ex_engine_processed)))
              \<lparr>controlService := controlService ex_engine_reloaded\<rparr>) ''ISM-0001'')
       = Some [(''Policy and Procedures'', ''Develop an access control policy'')]
   \<and> nistTitle ex_untitled = []
   \<and> enrichMapping ex_engine_reloaded ex_untitled
       = ex_untitled\<lparr>nistTitle := ''Access Control Policy and Procedures'',
                     nistDescription :=
                       ''Develop, document and disseminate an access control policy''\<rparr>
   \<and> nistTitle (hd (nistMappings ex_entry)) \<noteq> [] \<and> nistDescription (hd (nistMappings ex_entry)) \<noteq> []
   \<and> enrichMapping ex_engine_reloaded (hd (nistMappings ex_entry)) = hd (nistMappings ex_entry)"
proof -
  have h: "metadataStored ex_engine_processed"
    by code_simp
  have h': "metadataStored ex_engine_reloaded"
    by code_simp
  note T = titles_resolved_at_write [OF h, where cs' = "controlService ex_engine_reloaded"
      and ismId = "''ISM-0002''" and nid = "''AC-1''" and clock = "\<lambda>k. 2050" and completed = 1
      and totalN = 1 and controlId = "''ISM-0001''" and res = ex_analysis and job = ex_job]
  note U = titles_resolved_at_write [OF h', where nid = "''AC-1''" and mp = ex_untitled]
  note V = titles_resolved_at_write [OF h', where mp = "hd (nistMappings ex_entry)"]
  have reloaded: "ex_engine_processed\<lparr>controlService := controlService ex_engine_reloaded\<rparr>
      = ex_engine_reloaded"
    by (simp add: ex_engine_reloaded_def)
  have old: "find (\<lambda>control. toLowerCase (nist_id control) = toLowerCase ''AC-1'')
      (nistControls (controlService ex_engine_processed)) = Some (hd ex_nist)"
    by code_simp
  have new: "find (\<lambda>control. toLowerCase (nist_id control) = toLowerCase ''AC-1'')
      (nistControls (controlService ex_engine_reloaded)) = Some (hd ex_nist_reloaded)"
    by code_simp
  have md: "getNISTControlMetadata ex_engine_processed ''AC-1''
       = (''Policy and Procedures'', ''Develop an access control policy'')"
    using T by (simp add: old ex_nist_def)
  have md': "getNISTControlMetadata ex_engine_reloaded ''AC-1''
       = (''Access Control Policy and Procedures'',
          ''Develop, document and disseminate an access control policy'')"
    using U by (simp add: new ex_nist_reloaded_def)
  have un: "nistTitle ex_untitled = []" "nistControlId ex_untitled = ''AC-1''"
    by (simp_all add: ex_untitled_def)
  have ti: "nistTitle (hd (nistMappings ex_entry)) \<noteq> []"
    "nistDescription (hd (nistMappings ex_entry)) \<noteq> []"
    by (simp_all add: ex_entry_def)
  from T have c1: "getMappingResult ex_engine_reloaded ''ISM-0002''
       = map_of (mappingResults ex_engine_processed) ''ISM-0002''"
    and c2: "getAllMappingResults ex_engine_reloaded = map snd (mappingResults ex_engine_processed)"
    by (simp_all add: reloaded)
  from T have "getMappingResult
           ((snd (onProgress (\<lambda>k. 2050) 1 1 (Some (''ISM-0001'', ex_analysis))
                (ex_job, ex_engine_processed)))
              \<lparr>controlService := controlService ex_engine_reloaded\<rparr>) ''ISM-0001''
      = Some \<lparr>ismControlId = ''ISM-0001'',
                 nistMappings =
                   map (\<lambda>mapping.
                          \<lparr>nistControlId = nistControlId mapping, confidence = confidence mapping,
                           reasoning = reasoning mapping,
                           nistTitle =
                             fst (getNISTControlMetadata ex_engine_processed (nistControlId mapping)),
                           nistDescription =
                             snd (getNISTControlMetadata ex_engine_processed (nistControlId mapping)),
                           isManualOverride = False\<rparr>)
                     (mappings ex_analysis),
                 processingTimestamp = ar_timestamp ex_analysis, aiModel = ar_model ex_analysis,
                 processingTime = ar_processingTime ex_analysis\<rparr>"
    by simp
  then have c3: "map_option (\<lambda>r. map (\<lambda>m. (nistTitle m, nistDescription m)) (nistMappings r))
        (getMappingResult
           ((snd (onProgress (\<lambda>k. 2050) 1 1 (Some (''ISM-0001'', ex_analysis))
                (ex_job, ex_engine_processed)))
              \<lparr>controlService := controlService ex_engine_reloaded\<rparr>) ''ISM-0001'')
       = Some [(''Policy and Procedures'', ''Develop an access control policy'')]"
    by (simp add: ex_analysis_def md)
  from U un have c4: "enrichMapping ex_engine_reloaded ex_untitled
       = ex_untitled\<lparr>nistTitle := ''Access Control Policy and Procedures'',
                     nistDescription :=
                       ''Develop, document and disseminate an access control policy''\<rparr>"
    by (simp add: md')
  from V ti have c5: "enrichMapping ex_engine_reloaded (hd (nistMappings ex_entry))
      = hd (nistMappings ex_entry)"
    by blast
  from h c1 c2 md c3 un(1) c4 ti c5 show ?thesis by blast
qed

end
